theory Spec2Isabelle
  imports Complex_Main
begin

unbundle bit_operations_syntax

section \<open>Values\<close>

text \<open>
  The embedding follows \<^verbatim>\<open>src/bittensor/keyfile.py\<close>. Python \<^verbatim>\<open>bytes\<close> are lists of
  8-bit characters, so a byte literal \<^verbatim>\<open>b'gAAAAA'\<close> is the string \<open>''gAAAAA''\<close>. Python
  \<^verbatim>\<open>str\<close> values are lists of code points; the model keeps the code points below 256.
\<close>

type_synonym bytes = string
type_synonym str = string

text \<open>
  The Python objects that travel through the module untyped: what \<^verbatim>\<open>json.loads\<close> and
  \<^verbatim>\<open>Vault.load\<close> return and what \<^verbatim>\<open>json.dumps\<close> is given. A float carries its
  \<^verbatim>\<open>repr\<close>; \<open>PObject\<close> stands for any other object (named by its type).
\<close>

datatype pyobj =
    PNone
  | PBool bool
  | PInt int
  | PFloat string
  | PStr str
  | PBytes bytes
  | PList "pyobj list"
  | PDict "(pyobj \<times> pyobj) list"
  | PObject string

type_synonym pydict = "(pyobj \<times> pyobj) list"

section \<open>Exceptions\<close>

text \<open>
  \<^verbatim>\<open>KeyFileError\<close> is the module's only exception class; its instances differ in the
  message. Each constructor of \<open>keyfile_msg\<close> is one format string of the source, with the
  value it is formatted with:
  \<^item> \<open>Invalid_password\<close>: \<^verbatim>\<open>'Invalid password'\<close>
  \<^item> \<open>Data_is_corrupt d\<close>: \<^verbatim>\<open>"keyfile data: {} is corrupt".format(d)\<close>
  \<^item> \<open>Could_not_create_from_str s\<close> and \<open>Could_not_create_from_dict d\<close>:
    \<^verbatim>\<open>'Keypair could not be created from keyfile data: {}'\<close>, formatted with the decoded
    text (line 83) or with the parsed dictionary (line 95)
  \<^item> \<open>Does_not_exist p\<close>: \<^verbatim>\<open>"Keyfile at: {} does not exist".format(p)\<close>
  \<^item> \<open>Is_not_readable p\<close>: \<^verbatim>\<open>"Keyfile at: {} is not readable".format(p)\<close>
  \<^item> \<open>Is_not_writable p\<close>: \<^verbatim>\<open>"Keyfile at: {} is not writable".format(p)\<close>
\<close>

datatype keyfile_msg =
    Invalid_password
  | Data_is_corrupt bytes
  | Could_not_create_from_str str
  | Could_not_create_from_dict pydict
  | Does_not_exist str
  | Is_not_readable str
  | Is_not_writable str

text \<open>The exceptions of the libraries and of the runtime that the module can meet.\<close>

datatype py_exception =
    AnsibleVaultError
  | InvalidSignature
  | InvalidKey
  | InvalidToken
  | EOFError
  | UnicodeDecodeError
  | ValueError
  | TypeError
  | FileNotFoundError
  | FileExistsError
  | IsADirectoryError
  | PermissionError
  | OtherException string

datatype exn = KeyFileError keyfile_msg | Exception py_exception

section \<open>Text helpers of the runtime\<close>

definition hex_digit :: "nat \<Rightarrow> char" where
  "hex_digit n = ''0123456789abcdef'' ! (n mod 16)"

definition hex_byte :: "char \<Rightarrow> string" where
  "hex_byte c = [hex_digit (of_char c div 16), hex_digit (of_char c mod 16)]"

definition bytes_hex :: "bytes \<Rightarrow> str" where
  \<comment> \<open>\<^verbatim>\<open>bytes.hex()\<close>\<close>
  "bytes_hex b = concat (map hex_byte b)"

fun str_nat :: "nat \<Rightarrow> string" where
  "str_nat n = (if n < 10 then [hex_digit n] else str_nat (n div 10) @ [hex_digit (n mod 10)])"

declare str_nat.simps [simp del]

definition str_int :: "int \<Rightarrow> string" where
  \<comment> \<open>\<^verbatim>\<open>str(i)\<close> for an integer\<close>
  "str_int i = (if i < 0 then CHR ''-'' # str_nat (nat (- i)) else str_nat (nat i))"

definition utf8_char :: "char \<Rightarrow> bytes" where
  "utf8_char c =
     (let n = (of_char c :: nat)
      in if n < 128 then [c] else [char_of (192 + n div 64), char_of (128 + n mod 64)])"

definition str_encode :: "str \<Rightarrow> bytes" where
  \<comment> \<open>\<^verbatim>\<open>str.encode()\<close>: UTF-8\<close>
  "str_encode s = concat (map utf8_char s)"

fun join :: "string \<Rightarrow> string list \<Rightarrow> string" where
  "join sep [] = []"
| "join sep [x] = x"
| "join sep (x # y # ys) = x @ sep @ join sep (y # ys)"

definition ascii_upper :: "char \<Rightarrow> char" where
  "ascii_upper c =
     (let n = (of_char c :: nat) in if 97 \<le> n \<and> n \<le> 122 then char_of (n - 32) else c)"

definition str_upper :: "str \<Rightarrow> str" where
  \<comment> \<open>\<^verbatim>\<open>str.upper()\<close> on ASCII letters; other characters are kept as they are\<close>
  "str_upper s = map ascii_upper s"

definition startswith :: "str \<Rightarrow> str \<Rightarrow> bool" where
  "startswith s p = (take (length p) s = p)"

definition endswith :: "str \<Rightarrow> str \<Rightarrow> bool" where
  "endswith s p = (length p \<le> length s \<and> drop (length s - length p) s = p)"

subsection \<open>\<^verbatim>\<open>json.dumps\<close>\<close>

text \<open>
  \<^verbatim>\<open>json.dumps\<close> with its defaults: \<^verbatim>\<open>ensure_ascii\<close>, the separators \<^verbatim>\<open>', '\<close> and
  \<^verbatim>\<open>': '\<close>. It raises \<^verbatim>\<open>TypeError\<close> on an object that is not serializable and on a
  dictionary key that is not a string, a number, a boolean or \<^verbatim>\<open>None\<close>.
\<close>

definition json_escape_char :: "char \<Rightarrow> string" where
  "json_escape_char c =
     (if c = CHR 0x22 then [CHR 0x5C, CHR 0x22]
      else if c = CHR 0x5C then [CHR 0x5C, CHR 0x5C]
      else if c = CHR 0x0A then [CHR 0x5C, CHR ''n'']
      else if c = CHR 0x0D then [CHR 0x5C, CHR ''r'']
      else if c = CHR 0x09 then [CHR 0x5C, CHR ''t'']
      else if c = CHR 0x08 then [CHR 0x5C, CHR ''b'']
      else if c = CHR 0x0C then [CHR 0x5C, CHR ''f'']
      else if 32 \<le> (of_char c :: nat) \<and> (of_char c :: nat) \<le> 126 then [c]
      else [CHR 0x5C, CHR ''u'', CHR ''0'', CHR ''0''] @ hex_byte c)"

definition json_string :: "str \<Rightarrow> string" where
  "json_string s = [CHR 0x22] @ concat (map json_escape_char s) @ [CHR 0x22]"

fun sequence :: "('e + 'a) list \<Rightarrow> 'e + 'a list" where
  "sequence [] = Inr []"
| "sequence (Inl e # rs) = Inl e"
| "sequence (Inr x # rs) = (case sequence rs of Inl e \<Rightarrow> Inl e | Inr xs \<Rightarrow> Inr (x # xs))"

fun json_key :: "pyobj \<Rightarrow> py_exception + string" where
  "json_key (PStr s) = Inr (json_string s)"
| "json_key (PFloat r) = Inr (json_string r)"
| "json_key (PBool b) = Inr (json_string (if b then ''true'' else ''false''))"
| "json_key PNone = Inr (json_string ''null'')"
| "json_key (PInt i) = Inr (json_string (str_int i))"
| "json_key (PBytes b) = Inl TypeError"
| "json_key (PList xs) = Inl TypeError"
| "json_key (PDict kvs) = Inl TypeError"
| "json_key (PObject n) = Inl TypeError"

fun json_dumps :: "pyobj \<Rightarrow> py_exception + string" where
  "json_dumps PNone = Inr ''null''"
| "json_dumps (PBool b) = Inr (if b then ''true'' else ''false'')"
| "json_dumps (PInt i) = Inr (str_int i)"
| "json_dumps (PFloat r) = Inr r"
| "json_dumps (PStr s) = Inr (json_string s)"
| "json_dumps (PBytes b) = Inl TypeError"
| "json_dumps (PObject n) = Inl TypeError"
| "json_dumps (PList xs) =
     (case sequence (map json_dumps xs) of
        Inl e \<Rightarrow> Inl e
      | Inr ss \<Rightarrow> Inr (''['' @ join '', '' ss @ '']''))"
| "json_dumps (PDict kvs) =
     (case sequence (map (\<lambda>(k, v).
              case json_key k of
                Inl e \<Rightarrow> Inl e
              | Inr ks \<Rightarrow> (case json_dumps v of Inl e \<Rightarrow> Inl e | Inr vs \<Rightarrow> Inr (ks @ '': '' @ vs))) kvs) of
        Inl e \<Rightarrow> Inl e
      | Inr ss \<Rightarrow> Inr (''{'' @ join '', '' ss @ ''}''))"

section \<open>Keypairs and the libraries\<close>

text \<open>
  The fields of \<^verbatim>\<open>bittensor.Keypair\<close> that the module reads. \<^verbatim>\<open>seed_hex\<close> is a
  \<^verbatim>\<open>str\<close> or \<^verbatim>\<open>bytes\<close> (line 53 tests which).
\<close>

datatype seed = SeedStr str | SeedBytes bytes

record keypair =
  public_key :: "bytes option"
  mnemonic :: "str option"
  seed_hex :: "seed option"
  ss58_address :: "str option"

datatype hash_algorithm = SHA1 | SHA256 | SHA512

datatype policy_test = Strength real | EntropyBits real | Length nat

text \<open>
  The libraries the module calls are parameters: the theorems hold for whatever they
  compute. A call that can raise returns \<open>Inl\<close> of the exception.
  \<^item> \<open>vault_encrypt password data r\<close>: \<^verbatim>\<open>Vault(password).vault.encrypt(data)\<close>, where \<open>r\<close>
    is the randomness the call draws
  \<^item> \<open>vault_load password data\<close>: \<^verbatim>\<open>Vault(password).load(data)\<close>
  \<^item> \<open>pbkdf2hmac_derive algorithm salt length iterations key_material\<close>:
    \<^verbatim>\<open>PBKDF2HMAC(algorithm, length, salt, iterations, backend).derive(key_material)\<close>
  \<^item> \<open>urlsafe_b64encode\<close>: \<^verbatim>\<open>base64.urlsafe_b64encode\<close>
  \<^item> \<open>fernet_decrypt key token\<close>: \<^verbatim>\<open>Fernet(key).decrypt(token)\<close>
  \<^item> \<open>ss58_encode\<close>: \<^verbatim>\<open>substrateinterface.utils.ss58.ss58_encode\<close>
  \<^item> \<open>create_from_seed\<close>, \<open>create_from_mnemonic\<close>, \<open>Keypair_ss58_address\<close>:
    \<^verbatim>\<open>bittensor.Keypair.create_from_seed(v)\<close>, \<^verbatim>\<open>create_from_mnemonic(mnemonic=v)\<close> and
    \<^verbatim>\<open>bittensor.Keypair(ss58_address=v)\<close>
  \<^item> \<open>json_loads\<close>, \<open>py_dict\<close>, \<open>bytes_decode\<close>: \<^verbatim>\<open>json.loads\<close>, the builtin \<^verbatim>\<open>dict\<close> and
    \<^verbatim>\<open>bytes.decode()\<close>
  \<^item> \<open>entropy_bits\<close>, \<open>strength\<close>: the two estimates of
    \<^verbatim>\<open>password_strength.PasswordStats\<close>
\<close>

record lib =
  vault_encrypt :: "str \<Rightarrow> bytes \<Rightarrow> nat \<Rightarrow> py_exception + bytes"
  vault_load :: "str \<Rightarrow> bytes \<Rightarrow> py_exception + pyobj"
  pbkdf2hmac_derive :: "hash_algorithm \<Rightarrow> bytes \<Rightarrow> nat \<Rightarrow> nat \<Rightarrow> bytes \<Rightarrow> bytes"
  urlsafe_b64encode :: "bytes \<Rightarrow> bytes"
  fernet_decrypt :: "bytes \<Rightarrow> bytes \<Rightarrow> py_exception + bytes"
  ss58_encode :: "str \<Rightarrow> py_exception + str"
  create_from_seed :: "pyobj \<Rightarrow> py_exception + keypair"
  create_from_mnemonic :: "pyobj \<Rightarrow> py_exception + keypair"
  Keypair_ss58_address :: "pyobj \<Rightarrow> py_exception + keypair"
  json_loads :: "str \<Rightarrow> py_exception + pyobj"
  py_dict :: "pyobj \<Rightarrow> py_exception + pydict"
  bytes_decode :: "bytes \<Rightarrow> py_exception + str"
  entropy_bits :: "str \<Rightarrow> real"
  strength :: "str \<Rightarrow> real"

section \<open>The KeyRecord codec\<close>

definition json_data :: "keypair \<Rightarrow> pydict" where
  \<comment> \<open>the dictionary literal of lines 49 to 55; an empty value is falsy, as \<^verbatim>\<open>None\<close> is\<close>
  "json_data kp =
     [ (PStr ''accountId'',
          (case public_key kp of
             None \<Rightarrow> PNone
           | Some pk \<Rightarrow> if pk = [] then PNone else PStr (''0x'' @ bytes_hex pk))),
       (PStr ''publicKey'',
          (case public_key kp of
             None \<Rightarrow> PNone
           | Some pk \<Rightarrow> if pk = [] then PNone else PStr (''0x'' @ bytes_hex pk))),
       (PStr ''secretPhrase'',
          (case mnemonic kp of
             None \<Rightarrow> PNone
           | Some m \<Rightarrow> if m = [] then PNone else PStr m)),
       (PStr ''secretSeed'',
          (case seed_hex kp of
             None \<Rightarrow> PNone
           | Some (SeedStr s) \<Rightarrow> if s = [] then PNone else PStr (''0x'' @ s)
           | Some (SeedBytes b) \<Rightarrow> if b = [] then PNone else PStr (''0x'' @ bytes_hex b))),
       (PStr ''ss58Address'',
          (case ss58_address kp of
             None \<Rightarrow> PNone
           | Some a \<Rightarrow> if a = [] then PNone else PStr a)) ]"

definition serialized_keypair_to_keyfile_data :: "keypair \<Rightarrow> exn + bytes" where
  "serialized_keypair_to_keyfile_data kp =
     (case json_dumps (PDict (json_data kp)) of
        Inl e \<Rightarrow> Inl (Exception e)
      | Inr s \<Rightarrow> Inr (str_encode s))"

definition in_and_not_None :: "pydict \<Rightarrow> str \<Rightarrow> pyobj option" where
  \<comment> \<open>\<^verbatim>\<open>k in d and d[k] is not None\<close>, with the value when the test holds\<close>
  "in_and_not_None d k =
     (case map_of d (PStr k) of
        None \<Rightarrow> None
      | Some v \<Rightarrow> if v = PNone then None else Some v)"

definition load_keyfile_dict :: "lib \<Rightarrow> str \<Rightarrow> exn + pydict" where
  \<comment> \<open>lines 69 to 83: the bare \<^verbatim>\<open>except\<close> catches whatever the parse raises\<close>
  "load_keyfile_dict L keyfile_data =
     (case (case json_loads L keyfile_data of Inl e \<Rightarrow> Inl e | Inr v \<Rightarrow> py_dict L v) of
        Inr keyfile_dict \<Rightarrow> Inr keyfile_dict
      | Inl e \<Rightarrow>
          (let string_value = keyfile_data
           in if take 2 string_value = ''0x''
              then (case ss58_encode L string_value of
                      Inl e' \<Rightarrow> Inl (Exception e')
                    | Inr string_value' \<Rightarrow>
                        Inr [ (PStr ''accountId'', PNone),
                              (PStr ''publicKey'', PNone),
                              (PStr ''secretPhrase'', PNone),
                              (PStr ''secretSeed'', PNone),
                              (PStr ''ss58Address'', PStr string_value') ])
              else Inl (KeyFileError (Could_not_create_from_str string_value))))"

definition lift_exn :: "py_exception + 'a \<Rightarrow> exn + 'a" where
  "lift_exn r = (case r of Inl e \<Rightarrow> Inl (Exception e) | Inr v \<Rightarrow> Inr v)"

definition keypair_from_keyfile_dict :: "lib \<Rightarrow> pydict \<Rightarrow> exn + keypair" where
  \<comment> \<open>lines 85 to 95\<close>
  "keypair_from_keyfile_dict L keyfile_dict =
     (case in_and_not_None keyfile_dict ''secretSeed'' of
        Some v \<Rightarrow> lift_exn (create_from_seed L v)
      | None \<Rightarrow>
     (case in_and_not_None keyfile_dict ''secretPhrase'' of
        Some v \<Rightarrow> lift_exn (create_from_mnemonic L v)
      | None \<Rightarrow>
     (case in_and_not_None keyfile_dict ''ss58Address'' of
        Some v \<Rightarrow> lift_exn (Keypair_ss58_address L v)
      | None \<Rightarrow> Inl (KeyFileError (Could_not_create_from_dict keyfile_dict)))))"

definition deserialize_keypair_from_keyfile_data :: "lib \<Rightarrow> bytes \<Rightarrow> exn + keypair" where
  "deserialize_keypair_from_keyfile_data L keyfile_data =
     (case bytes_decode L keyfile_data of
        Inl e \<Rightarrow> Inl (Exception e)
      | Inr text \<Rightarrow>
          (case load_keyfile_dict L text of
             Inl e \<Rightarrow> Inl e
           | Inr keyfile_dict \<Rightarrow> keypair_from_keyfile_dict L keyfile_dict))"

section \<open>Format detection\<close>

definition keyfile_data_is_encrypted_ansible :: "bytes \<Rightarrow> bool" where
  "keyfile_data_is_encrypted_ansible keyfile_data = (take 14 keyfile_data = ''$ANSIBLE_VAULT'')"

definition keyfile_data_is_encrypted_legacy :: "bytes \<Rightarrow> bool" where
  "keyfile_data_is_encrypted_legacy keyfile_data = (take 6 keyfile_data = ''gAAAAA'')"

definition keyfile_data_is_encrypted :: "bytes \<Rightarrow> bool" where
  "keyfile_data_is_encrypted keyfile_data =
     (keyfile_data_is_encrypted_ansible keyfile_data \<or> keyfile_data_is_encrypted_legacy keyfile_data)"

section \<open>The world outside the process\<close>

text \<open>
  What the module reads and changes outside its own variables. Regular files carry their
  bytes and permission bits; \<open>dirs\<close> holds the directories that exist. A path names a file
  by its spelling. The process owns its files and is not the superuser, so
  \<^verbatim>\<open>os.access\<close> reads the owner bits; the model has no permissions on directories.
  \<open>getpass_in\<close> and \<open>input_in\<close> are the lines still to come at the password prompt and at
  \<^verbatim>\<open>input()\<close>; reading past the end raises \<^verbatim>\<open>EOFError\<close>. \<open>rng\<close> counts the draws of
  randomness. Text printed to the console is not modelled.
\<close>

record regular_file =
  content :: bytes
  mode :: int

record world =
  files :: "str \<Rightarrow> regular_file option"
  dirs :: "str set"
  umask :: int
  environ :: "(str \<times> str) list"
  getpass_in :: "str list"
  input_in :: "str list"
  rng :: nat

definition getpass_getpass :: "world \<Rightarrow> (py_exception + str) \<times> world" where
  "getpass_getpass w =
     (case getpass_in w of
        [] \<Rightarrow> (Inl EOFError, w)
      | x # xs \<Rightarrow> (Inr x, w\<lparr>getpass_in := xs\<rparr>))"

definition builtin_input :: "world \<Rightarrow> (py_exception + str) \<times> world" where
  "builtin_input w =
     (case input_in w of
        [] \<Rightarrow> (Inl EOFError, w)
      | x # xs \<Rightarrow> (Inr x, w\<lparr>input_in := xs\<rparr>))"

definition S_IRUSR :: int where
  "S_IRUSR = 256"

definition S_IWUSR :: int where
  "S_IWUSR = 128"

datatype access_mode = R_OK | W_OK

definition os_path_isfile :: "world \<Rightarrow> str \<Rightarrow> bool" where
  "os_path_isfile w p = (p \<noteq> [] \<and> files w p \<noteq> None)"

definition os_path_exists :: "world \<Rightarrow> str \<Rightarrow> bool" where
  "os_path_exists w p = (p \<noteq> [] \<and> (files w p \<noteq> None \<or> p \<in> dirs w))"

definition os_access :: "world \<Rightarrow> str \<Rightarrow> access_mode \<Rightarrow> bool" where
  "os_access w p m =
     (p \<noteq> [] \<and>
      (case files w p of
         Some f \<Rightarrow> mode f AND (case m of R_OK \<Rightarrow> S_IRUSR | W_OK \<Rightarrow> S_IWUSR) \<noteq> 0
       | None \<Rightarrow> p \<in> dirs w))"

definition rstrip_slash :: "str \<Rightarrow> str" where
  "rstrip_slash s = rev (dropWhile (\<lambda>c. c = CHR ''/'') (rev s))"

definition os_path_dirname :: "str \<Rightarrow> str" where
  \<comment> \<open>\<^verbatim>\<open>posixpath.dirname\<close>: the text before the last slash, without its trailing slashes
      unless it is slashes only\<close>
  "os_path_dirname p =
     (let i = length p - length (takeWhile (\<lambda>c. c \<noteq> CHR ''/'') (rev p));
          head = take i p
      in if head \<noteq> [] \<and> head \<noteq> replicate (length head) (CHR ''/'')
         then rstrip_slash head else head)"

definition os_makedirs :: "world \<Rightarrow> str \<Rightarrow> py_exception + world" where
  \<comment> \<open>the directory is recorded under the name the module asks for\<close>
  "os_makedirs w d =
     (if d = [] then Inl FileNotFoundError
      else if os_path_exists w d then Inl FileExistsError
      else Inr (w\<lparr>dirs := insert d (dirs w)\<rparr>))"

definition open_wb :: "world \<Rightarrow> str \<Rightarrow> py_exception + world" where
  \<comment> \<open>\<^verbatim>\<open>open(p, "wb")\<close>: creates the file, or truncates it and keeps its permission bits\<close>
  "open_wb w p =
     (if p = [] then Inl FileNotFoundError
      else if p \<in> dirs w then Inl IsADirectoryError
      else if os_path_dirname p \<noteq> [] \<and> os_path_dirname p \<notin> dirs w then Inl FileNotFoundError
      else (case files w p of
              None \<Rightarrow> Inr (w\<lparr>files := (files w)(p \<mapsto> \<lparr>content = [], mode = 438 AND NOT (umask w)\<rparr>)\<rparr>)
            | Some f \<Rightarrow>
                if mode f AND S_IWUSR = 0 then Inl PermissionError
                else Inr (w\<lparr>files := (files w)(p \<mapsto> f\<lparr>content := []\<rparr>)\<rparr>)))"

definition file_write :: "world \<Rightarrow> str \<Rightarrow> bytes \<Rightarrow> world" where
  \<comment> \<open>\<^verbatim>\<open>write\<close> on the file just opened, then the close at the end of the \<^verbatim>\<open>with\<close> block\<close>
  "file_write w p data =
     (case files w p of
        None \<Rightarrow> w
      | Some f \<Rightarrow> w\<lparr>files := (files w)(p \<mapsto> f\<lparr>content := content f @ data\<rparr>)\<rparr>)"

definition os_chmod :: "world \<Rightarrow> str \<Rightarrow> int \<Rightarrow> py_exception + world" where
  "os_chmod w p m =
     (case files w p of
        None \<Rightarrow> Inl FileNotFoundError
      | Some f \<Rightarrow> Inr (w\<lparr>files := (files w)(p \<mapsto> f\<lparr>mode := m\<rparr>)\<rparr>))"

section \<open>Password policy\<close>

definition policy :: "policy_test list" where
  \<comment> \<open>\<^verbatim>\<open>PasswordPolicy.from_names(strength=0.20, entropybits=10, length=6)\<close>\<close>
  "policy = [Strength 0.20, EntropyBits 10, Length 6]"

definition test_passes :: "lib \<Rightarrow> policy_test \<Rightarrow> str \<Rightarrow> bool" where
  "test_passes L t password =
     (case t of
        Strength s \<Rightarrow> s \<le> strength L password
      | EntropyBits b \<Rightarrow> b \<le> entropy_bits L password
      | Length n \<Rightarrow> n \<le> length password)"

definition policy_test_failures :: "lib \<Rightarrow> policy_test list \<Rightarrow> str \<Rightarrow> policy_test list" where
  \<comment> \<open>\<^verbatim>\<open>policy.password(password).test()\<close>: the tests that the password fails\<close>
  "policy_test_failures L pol password = filter (\<lambda>t. \<not> test_passes L t password) pol"

definition validate_password :: "lib \<Rightarrow> str option \<Rightarrow> world \<Rightarrow> (exn + bool) \<times> world" where
  "validate_password L password w =
     (case password of
        None \<Rightarrow> (Inr False, w)
      | Some p \<Rightarrow>
          if p = [] then (Inr False, w)
          else (let result = policy_test_failures L policy p
                in if length result > 0 then (Inr False, w)
                   else (case getpass_getpass w of
                           (Inl e, w') \<Rightarrow> (Inl (Exception e), w')
                         | (Inr password_verification, w') \<Rightarrow>
                             if p \<noteq> password_verification then (Inr False, w')
                             else (Inr True, w'))))"

lemma getpass_getpass_shorter:
  "getpass_getpass w = (Inr x, w') \<Longrightarrow> length (getpass_in w') < length (getpass_in w)"
  by (auto simp: getpass_getpass_def split: list.splits)

lemma getpass_getpass_le:
  "getpass_getpass w = (r, w') \<Longrightarrow> length (getpass_in w') \<le> length (getpass_in w)"
  by (auto simp: getpass_getpass_def split: list.splits)

lemma validate_password_le:
  "validate_password L p w = (r, w') \<Longrightarrow> length (getpass_in w') \<le> length (getpass_in w)"
  by (auto simp: validate_password_def Let_def dest: getpass_getpass_le
           split: option.splits if_splits prod.splits sum.splits)

function ask_password_to_encrypt :: "lib \<Rightarrow> world \<Rightarrow> (exn + str) \<times> world" where
  "ask_password_to_encrypt L w =
     (case getpass_getpass w of
        (Inl e, w1) \<Rightarrow> (Inl (Exception e), w1)
      | (Inr password, w1) \<Rightarrow>
          (case validate_password L (Some password) w1 of
             (Inl e, w2) \<Rightarrow> (Inl e, w2)
           | (Inr valid, w2) \<Rightarrow>
               if valid then (Inr password, w2) else ask_password_to_encrypt L w2))"
  by pat_completeness auto
termination
proof (relation "measure (\<lambda>(L, w). length (getpass_in w))")
  show "wf (measure (\<lambda>(L, w). length (getpass_in w)))"
    by simp
next
  fix L w x1 w1 password x2 w2 valid
  assume a: "(x1, w1) = getpass_getpass w" "x1 = Inr password"
    and b: "(x2, w2) = validate_password L (Some password) w1"
  from a have "length (getpass_in w1) < length (getpass_in w)"
    using getpass_getpass_shorter [of w password w1] by simp
  moreover from b have "length (getpass_in w2) \<le> length (getpass_in w1)"
    using validate_password_le [of L "Some password" w1 x2 w2] by simp
  ultimately show "((L, w2), (L, w)) \<in> measure (\<lambda>(L, w). length (getpass_in w))"
    by simp
qed

declare ask_password_to_encrypt.simps [simp del]

section \<open>The encryption engine\<close>

definition encrypt_keyfile_data :: "lib \<Rightarrow> bytes \<Rightarrow> str option \<Rightarrow> world \<Rightarrow> (exn + bytes) \<times> world" where
  "encrypt_keyfile_data L keyfile_data password w =
     (case (case password of
              None \<Rightarrow> ask_password_to_encrypt L w
            | Some p \<Rightarrow> (Inr p, w)) of
        (Inl e, w1) \<Rightarrow> (Inl e, w1)
      | (Inr p, w1) \<Rightarrow>
          (lift_exn (vault_encrypt L p keyfile_data (rng w1)), w1\<lparr>rng := Suc (rng w1)\<rparr>))"

fun get_coldkey_password_from_environment :: "str \<Rightarrow> (str \<times> str) list \<Rightarrow> str option" where
  "get_coldkey_password_from_environment coldkey_name [] = None"
| "get_coldkey_password_from_environment coldkey_name ((env_var, v) # rest) =
     (if startswith (str_upper env_var) ''BT_COLD_PW_''
         \<and> endswith (str_upper env_var) (str_upper coldkey_name)
      then Some v
      else get_coldkey_password_from_environment coldkey_name rest)"

definition SALT :: bytes where
  "SALT = ''Iguesscyborgslikemyselfhaveatendencytobeparanoidaboutourorigins''"

definition invalid_password_handler :: "py_exception \<Rightarrow> exn" where
  \<comment> \<open>line 228: \<^verbatim>\<open>except (InvalidSignature, InvalidKey, InvalidToken)\<close>; any other exception
      passes through\<close>
  "invalid_password_handler e =
     (if e = InvalidSignature \<or> e = InvalidKey \<or> e = InvalidToken
      then KeyFileError Invalid_password else Exception e)"

definition ansible_decrypt :: "lib \<Rightarrow> str \<Rightarrow> bytes \<Rightarrow> exn + pyobj" where
  \<comment> \<open>lines 212 to 216, under the handler of line 228\<close>
  "ansible_decrypt L password keyfile_data =
     (case vault_load L password keyfile_data of
        Inl e \<Rightarrow>
          if e = AnsibleVaultError then Inl (KeyFileError Invalid_password)
          else Inl (invalid_password_handler e)
      | Inr decrypted_keyfile_data \<Rightarrow> Inr decrypted_keyfile_data)"

definition legacy_decrypt :: "lib \<Rightarrow> str \<Rightarrow> bytes \<Rightarrow> exn + pyobj" where
  \<comment> \<open>lines 219 to 223, under the handler of line 228\<close>
  "legacy_decrypt L password keyfile_data =
     (let key = urlsafe_b64encode L
                  (pbkdf2hmac_derive L SHA256 SALT 32 10000000 (str_encode password))
      in case fernet_decrypt L key keyfile_data of
           Inl e \<Rightarrow> Inl (invalid_password_handler e)
         | Inr decrypted_keyfile_data \<Rightarrow> Inr (PBytes decrypted_keyfile_data))"

definition decrypted_as_bytes :: "pyobj \<Rightarrow> exn + bytes" where
  \<comment> \<open>lines 231 to 233: a payload that is not \<^verbatim>\<open>bytes\<close> is serialized\<close>
  "decrypted_as_bytes decrypted_keyfile_data =
     (case decrypted_keyfile_data of
        PBytes b \<Rightarrow> Inr b
      | _ \<Rightarrow> (case json_dumps decrypted_keyfile_data of
                Inl e \<Rightarrow> Inl (Exception e)
              | Inr s \<Rightarrow> Inr (str_encode s)))"

definition decrypt_keyfile_data ::
  "lib \<Rightarrow> bytes \<Rightarrow> str option \<Rightarrow> str option \<Rightarrow> world \<Rightarrow> (exn + bytes) \<times> world" where
  "decrypt_keyfile_data L keyfile_data password coldkey_name w =
     (let password1 =
            (case coldkey_name of
               Some n \<Rightarrow>
                 (if password = None then get_coldkey_password_from_environment n (environ w)
                  else password)
             | None \<Rightarrow> password)
      in case (case password1 of
                 None \<Rightarrow> (case getpass_getpass w of (r, w1) \<Rightarrow> (lift_exn r, w1))
               | Some p \<Rightarrow> (Inr p, w)) of
           (Inl e, w1) \<Rightarrow> (Inl e, w1)
         | (Inr p, w1) \<Rightarrow>
             (case (if keyfile_data_is_encrypted_ansible keyfile_data
                    then ansible_decrypt L p keyfile_data
                    else if keyfile_data_is_encrypted_legacy keyfile_data
                    then legacy_decrypt L p keyfile_data
                    else Inl (KeyFileError (Data_is_corrupt keyfile_data))) of
                Inl e \<Rightarrow> (Inl e, w1)
              | Inr decrypted_keyfile_data \<Rightarrow> (decrypted_as_bytes decrypted_keyfile_data, w1)))"

section \<open>The keyfile object\<close>

text \<open>
  A keyfile is its path and the name taken from the path's parent directory
  (\<^verbatim>\<open>__init__\<close>). The methods \<^verbatim>\<open>_may_overwrite\<close>, \<^verbatim>\<open>_read_keyfile_data_from_file\<close> and
  \<^verbatim>\<open>_write_keyfile_data_to_file\<close> are written without their leading underscore, and the
  methods \<^verbatim>\<open>encrypt\<close> and \<^verbatim>\<open>decrypt\<close> as \<open>keyfile_encrypt\<close> and \<open>keyfile_decrypt\<close>.
\<close>

record keyfile =
  path :: str
  name :: str

definition make_dirs :: "keyfile \<Rightarrow> world \<Rightarrow> (exn + unit) \<times> world" where
  "make_dirs K w =
     (let directory = os_path_dirname (path K)
      in if \<not> os_path_exists w directory
         then (case os_makedirs w directory of
                 Inl e \<Rightarrow> (Inl (Exception e), w)
               | Inr w' \<Rightarrow> (Inr (), w'))
         else (Inr (), w))"

definition exists_on_device :: "keyfile \<Rightarrow> world \<Rightarrow> bool" where
  "exists_on_device K w = (if \<not> os_path_isfile w (path K) then False else True)"

definition is_readable :: "keyfile \<Rightarrow> world \<Rightarrow> bool" where
  "is_readable K w =
     (if \<not> exists_on_device K w then False
      else if \<not> os_access w (path K) R_OK then False
      else True)"

definition is_writable :: "keyfile \<Rightarrow> world \<Rightarrow> bool" where
  "is_writable K w = (if os_access w (path K) W_OK then True else False)"

definition read_keyfile_data_from_file :: "keyfile \<Rightarrow> world \<Rightarrow> exn + bytes" where
  "read_keyfile_data_from_file K w =
     (if \<not> exists_on_device K w then Inl (KeyFileError (Does_not_exist (path K)))
      else if \<not> is_readable K w then Inl (KeyFileError (Is_not_readable (path K)))
      else (case files w (path K) of
              None \<Rightarrow> Inl (Exception FileNotFoundError)
            | Some f \<Rightarrow> Inr (content f)))"

definition is_encrypted :: "keyfile \<Rightarrow> world \<Rightarrow> exn + bool" where
  "is_encrypted K w =
     (if \<not> exists_on_device K w then Inr False
      else if \<not> is_readable K w then Inr False
      else (case read_keyfile_data_from_file K w of
              Inl e \<Rightarrow> Inl e
            | Inr d \<Rightarrow> Inr (keyfile_data_is_encrypted d)))"

definition may_overwrite :: "keyfile \<Rightarrow> world \<Rightarrow> (exn + bool) \<times> world" where
  "may_overwrite K w =
     (case builtin_input w of
        (Inl e, w') \<Rightarrow> (Inl (Exception e), w')
      | (Inr choice, w') \<Rightarrow> (Inr (choice = ''y''), w'))"

definition write_keyfile_data_to_file ::
  "keyfile \<Rightarrow> bytes \<Rightarrow> bool \<Rightarrow> world \<Rightarrow> (exn + unit) \<times> world" where
  "write_keyfile_data_to_file K keyfile_data overwrite w =
     (case (if exists_on_device K w \<and> \<not> overwrite
            then (case may_overwrite K w of
                    (Inl e, w1) \<Rightarrow> (Inl e, w1)
                  | (Inr allowed, w1) \<Rightarrow>
                      if \<not> allowed then (Inl (KeyFileError (Is_not_writable (path K))), w1)
                      else (Inr (), w1))
            else (Inr (), w)) of
        (Inl e, w1) \<Rightarrow> (Inl e, w1)
      | (Inr u, w1) \<Rightarrow>
          (case open_wb w1 (path K) of
             Inl e \<Rightarrow> (Inl (Exception e), w1)
           | Inr w2 \<Rightarrow>
               (let w3 = file_write w2 (path K) keyfile_data
                in case os_chmod w3 (path K) (S_IRUSR OR S_IWUSR) of
                     Inl e \<Rightarrow> (Inl (Exception e), w3)
                   | Inr w4 \<Rightarrow> (Inr (), w4))))"

definition set_keypair ::
  "lib \<Rightarrow> keyfile \<Rightarrow> keypair \<Rightarrow> bool \<Rightarrow> bool \<Rightarrow> str option \<Rightarrow> world \<Rightarrow> (exn + unit) \<times> world" where
  "set_keypair L K kp encrypt overwrite password w =
     (case make_dirs K w of
        (Inl e, w1) \<Rightarrow> (Inl e, w1)
      | (Inr u, w1) \<Rightarrow>
          (case serialized_keypair_to_keyfile_data kp of
             Inl e \<Rightarrow> (Inl e, w1)
           | Inr keyfile_data \<Rightarrow>
               (case (if encrypt then encrypt_keyfile_data L keyfile_data password w1
                      else (Inr keyfile_data, w1)) of
                  (Inl e, w2) \<Rightarrow> (Inl e, w2)
                | (Inr keyfile_data', w2) \<Rightarrow>
                    write_keyfile_data_to_file K keyfile_data' overwrite w2)))"

definition get_keypair :: "lib \<Rightarrow> keyfile \<Rightarrow> str option \<Rightarrow> world \<Rightarrow> (exn + keypair) \<times> world" where
  "get_keypair L K password w =
     (case read_keyfile_data_from_file K w of
        Inl e \<Rightarrow> (Inl e, w)
      | Inr keyfile_data \<Rightarrow>
          (case (if keyfile_data_is_encrypted keyfile_data
                 then decrypt_keyfile_data L keyfile_data password (Some (name K)) w
                 else (Inr keyfile_data, w)) of
             (Inl e, w1) \<Rightarrow> (Inl e, w1)
           | (Inr keyfile_data', w1) \<Rightarrow>
               (deserialize_keypair_from_keyfile_data L keyfile_data', w1)))"

definition keyfile_encrypt :: "lib \<Rightarrow> keyfile \<Rightarrow> str option \<Rightarrow> world \<Rightarrow> (exn + unit) \<times> world" where
  "keyfile_encrypt L K password w =
     (if \<not> exists_on_device K w then (Inl (KeyFileError (Does_not_exist (path K))), w)
      else if \<not> is_readable K w then (Inl (KeyFileError (Is_not_readable (path K))), w)
      else if \<not> is_writable K w then (Inl (KeyFileError (Is_not_writable (path K))), w)
      else (case read_keyfile_data_from_file K w of
              Inl e \<Rightarrow> (Inl e, w)
            | Inr keyfile_data \<Rightarrow>
                (case (if \<not> keyfile_data_is_encrypted keyfile_data
                       then (case deserialize_keypair_from_keyfile_data L keyfile_data of
                               Inl e \<Rightarrow> (Inl e, w)
                             | Inr as_keypair \<Rightarrow>
                                 (case serialized_keypair_to_keyfile_data as_keypair of
                                    Inl e \<Rightarrow> (Inl e, w)
                                  | Inr keyfile_data' \<Rightarrow>
                                      encrypt_keyfile_data L keyfile_data' password w))
                       else (Inr keyfile_data, w)) of
                   (Inl e, w1) \<Rightarrow> (Inl e, w1)
                 | (Inr keyfile_data', w1) \<Rightarrow>
                     write_keyfile_data_to_file K keyfile_data' True w1)))"

definition keyfile_decrypt :: "lib \<Rightarrow> keyfile \<Rightarrow> str option \<Rightarrow> world \<Rightarrow> (exn + unit) \<times> world" where
  "keyfile_decrypt L K password w =
     (if \<not> exists_on_device K w then (Inl (KeyFileError (Does_not_exist (path K))), w)
      else if \<not> is_readable K w then (Inl (KeyFileError (Is_not_readable (path K))), w)
      else if \<not> is_writable K w then (Inl (KeyFileError (Is_not_writable (path K))), w)
      else (case read_keyfile_data_from_file K w of
              Inl e \<Rightarrow> (Inl e, w)
            | Inr keyfile_data \<Rightarrow>
                (case (if keyfile_data_is_encrypted keyfile_data
                       then decrypt_keyfile_data L keyfile_data password (Some (name K)) w
                       else (Inr keyfile_data, w)) of
                   (Inl e, w1) \<Rightarrow> (Inl e, w1)
                 | (Inr keyfile_data', w1) \<Rightarrow>
                     (case deserialize_keypair_from_keyfile_data L keyfile_data' of
                        Inl e \<Rightarrow> (Inl e, w1)
                      | Inr as_keypair \<Rightarrow>
                          (case serialized_keypair_to_keyfile_data as_keypair of
                             Inl e \<Rightarrow> (Inl e, w1)
                           | Inr keyfile_data'' \<Rightarrow>
                               write_keyfile_data_to_file K keyfile_data'' True w1)))))"

section \<open>The classification of the specification\<close>

text \<open>
  The module has no function that returns a format: it has the two prefix tests above and
  the order in which \<open>decrypt_keyfile_data\<close> asks them. \<open>classify_spec\<close> is the
  classification in the specification's words (the Vault marker first, then the Legacy
  marker, else Plaintext), to be compared with the module.
\<close>

datatype blob_format = Vault | Legacy | Plaintext

definition classify_spec :: "bytes \<Rightarrow> blob_format" where
  "classify_spec b =
     (if take 14 b = ''$ANSIBLE_VAULT'' then Vault
      else if take 6 b = ''gAAAAA'' then Legacy
      else Plaintext)"

section \<open>A small instance of the libraries\<close>

text \<open>
  One instance of the library parameters, on which the model runs on concrete inputs. Its
  vault keeps the password in clear in front of the payload: it rejects an envelope
  without its header line with a format error and an envelope whose password differs
  with \<^verbatim>\<open>AnsibleVaultError\<close>. Its cipher token is the Legacy marker, the key and the
  payload. Its parser knows the documents of \<open>demo_documents\<close>. Its
  \<^verbatim>\<open>Keypair(ss58_address=...)\<close> derives the public key from the address, as
  \<^verbatim>\<open>test_only_provide_ss58_address\<close> and \<^verbatim>\<open>test_legacy_coldkey\<close> of the source expect.
\<close>

definition demo_header :: bytes where
  "demo_header = ''$ANSIBLE_VAULT;1.1;AES256;''"

definition demo_vault_load :: "str \<Rightarrow> bytes \<Rightarrow> py_exception + pyobj" where
  "demo_vault_load password blob =
     (if \<not> startswith blob demo_header then Inl (OtherException ''AnsibleVaultFormatError'')
      else if startswith (drop (length demo_header) blob) (password @ '':'')
      then Inr (PStr (drop (length demo_header + length password + 1) blob))
      else Inl AnsibleVaultError)"

definition demo_fernet_decrypt :: "bytes \<Rightarrow> bytes \<Rightarrow> py_exception + bytes" where
  "demo_fernet_decrypt key token =
     (if startswith token (''gAAAAA'' @ key) then Inr (drop (6 + length key) token)
      else Inl InvalidToken)"

definition demo_documents :: "pyobj list" where
  "demo_documents =
     [ PDict [],
       PDict [(PStr ''secretSeed'', PStr ''0x01''), (PStr ''secretPhrase'', PStr ''abandon''),
              (PStr ''ss58Address'', PStr ''5P'')],
       PDict [(PStr ''secretSeed'', PNone), (PStr ''secretPhrase'', PStr ''abandon''),
              (PStr ''ss58Address'', PStr ''5P'')],
       PDict [(PStr ''secretPhrase'', PNone), (PStr ''ss58Address'', PStr ''5P'')],
       PDict [(PStr ''publicKey'', PStr ''0x50'')],
       PList [], PNone ]"

definition demo_json_loads :: "str \<Rightarrow> py_exception + pyobj" where
  "demo_json_loads s =
     (case filter (\<lambda>v. json_dumps v = Inr s) demo_documents of
        [] \<Rightarrow> Inl ValueError
      | v # _ \<Rightarrow> Inr v)"

definition is_hex :: "char \<Rightarrow> bool" where
  "is_hex c = (c \<in> set ''0123456789abcdefABCDEF'')"

definition demo_lib :: lib where
  "demo_lib =
     \<lparr> vault_encrypt = (\<lambda>password data r. Inr (demo_header @ password @ '':'' @ data)),
       vault_load = demo_vault_load,
       pbkdf2hmac_derive = (\<lambda>algorithm salt n iterations key_material. take n (key_material @ salt)),
       urlsafe_b64encode = (\<lambda>b. b),
       fernet_decrypt = demo_fernet_decrypt,
       ss58_encode = (\<lambda>s. if drop 2 s \<noteq> [] \<and> list_all is_hex (drop 2 s)
                           then Inr (''5'' @ drop 2 s) else Inl ValueError),
       create_from_seed = (\<lambda>v. case v of
           PStr s \<Rightarrow> Inr \<lparr>public_key = Some ''P'', mnemonic = None,
                          seed_hex = Some (SeedStr (drop 2 s)), ss58_address = Some ''5P''\<rparr>
         | _ \<Rightarrow> Inl TypeError),
       create_from_mnemonic = (\<lambda>v. case v of
           PStr s \<Rightarrow> Inr \<lparr>public_key = Some ''P'', mnemonic = Some s,
                          seed_hex = Some (SeedStr ''01''), ss58_address = Some ''5P''\<rparr>
         | _ \<Rightarrow> Inl TypeError),
       Keypair_ss58_address = (\<lambda>v. case v of
           PStr a \<Rightarrow> Inr \<lparr>public_key = Some (drop 1 a), mnemonic = None,
                          seed_hex = None, ss58_address = Some a\<rparr>
         | _ \<Rightarrow> Inl TypeError),
       json_loads = demo_json_loads,
       py_dict = (\<lambda>v. case v of PDict kvs \<Rightarrow> Inr kvs | PList [] \<Rightarrow> Inr [] | _ \<Rightarrow> Inl TypeError),
       bytes_decode = (\<lambda>b. if list_all (\<lambda>c. (of_char c :: nat) < 128) b then Inr b
                            else Inl UnicodeDecodeError),
       entropy_bits = (\<lambda>s. 4 * real (length s)),
       strength = (\<lambda>s. real (length s) / 20) \<rparr>"

definition demo_world :: world where
  "demo_world =
     \<lparr> files = [''/wallets/alice/coldkey'' \<mapsto> \<lparr>content = ''0x50'', mode = 420\<rparr>],
       dirs = {''/wallets/alice''},
       umask = 18,
       environ = [(''bt_cold_pw_alice'', ''hunter2'')],
       getpass_in = [],
       input_in = [''n''],
       rng = 0 \<rparr>"

definition alice_keyfile :: keyfile where
  "alice_keyfile = \<lparr>path = ''/wallets/alice/coldkey'', name = ''alice''\<rparr>"

definition empty_keypair :: keypair where
  "empty_keypair = \<lparr>public_key = None, mnemonic = None, seed_hex = None, ss58_address = None\<rparr>"

text \<open>
  The keypair of \<^verbatim>\<open>test_legacy_coldkey\<close>, and two records with more than one of the
  reconstructable fields.
\<close>

definition legacy_coldkey_keypair :: keypair where
  "legacy_coldkey_keypair =
     \<lparr> public_key = Some (map char_of
         [0x32, 0x93, 0x9b, 0x6a, 0xbc, 0x4d, 0x81, 0xf0, 0x2d, 0xff, 0x04, 0xd2, 0xb8, 0xd1,
          0xd0, 0x1c, 0xc8, 0xe7, 0x1c, 0x5e, 0x4c, 0x74, 0x92, 0xe4, 0xfa, 0x6a, 0x23, 0x8c,
          0xdc, 0xa3, 0x51, 0x2f :: nat]),
       mnemonic = None,
       seed_hex = None,
       ss58_address = Some ''5DD26kC2kxajmwfbbZmVmxhrY9VeeyR1Gpzy9i8wxLUg6zxm'' \<rparr>"



section \<open>Format detection and decryption\<close>

lemma magic_disjoint:
  "\<not> (keyfile_data_is_encrypted_ansible b \<and> keyfile_data_is_encrypted_legacy b)"
proof
  assume a: "keyfile_data_is_encrypted_ansible b \<and> keyfile_data_is_encrypted_legacy b"
  then have v: "take 14 b = ''$ANSIBLE_VAULT''" and l: "take 6 b = ''gAAAAA''"
    by (simp_all add: keyfile_data_is_encrypted_ansible_def keyfile_data_is_encrypted_legacy_def)
  have "take 6 (take 14 b) = take 6 b" by simp
  with v l show False by simp
qed

lemma decrypt_with_password:
  "decrypt_keyfile_data L b (Some p) cn w =
     (case (if keyfile_data_is_encrypted_ansible b then ansible_decrypt L p b
            else if keyfile_data_is_encrypted_legacy b then legacy_decrypt L p b
            else Inl (KeyFileError (Data_is_corrupt b))) of
        Inl e \<Rightarrow> (Inl e, w)
      | Inr d \<Rightarrow> (decrypted_as_bytes d, w))"
  by (simp add: decrypt_keyfile_data_def split: option.splits)



lemma legacy_decrypt_cases:
  "legacy_decrypt L p b =
     (case fernet_decrypt L
             (urlsafe_b64encode L (pbkdf2hmac_derive L SHA256 SALT 32 10000000 (str_encode p))) b of
        Inl e \<Rightarrow> Inl (if e \<in> {InvalidSignature, InvalidKey, InvalidToken}
                      then KeyFileError Invalid_password else Exception e)
      | Inr d \<Rightarrow> Inr (PBytes d))"
  by (auto simp: legacy_decrypt_def invalid_password_handler_def Let_def split: sum.splits)

text \<open>
  Claim C3. Format classification is by prefix alone: a byte string is Vault exactly when
  its first 14 bytes are the Vault marker, Legacy exactly when its first 6 bytes are the
  Legacy marker, and Plaintext otherwise. No byte string passes both prefix tests, so
  nothing that begins with the Vault marker is classified Legacy and conversely.
  \<open>decrypt_keyfile_data\<close> asks the Vault test first and the Legacy test second, and takes
  the branch of the class.
\<close>

theorem classification_prefix_exact:
  "(classify_spec b = Vault \<longleftrightarrow> keyfile_data_is_encrypted_ansible b)
   \<and> (classify_spec b = Legacy \<longleftrightarrow> keyfile_data_is_encrypted_legacy b)
   \<and> (classify_spec b = Plaintext \<longleftrightarrow> \<not> keyfile_data_is_encrypted b)
   \<and> (keyfile_data_is_encrypted_ansible b \<longleftrightarrow> take 14 b = ''$ANSIBLE_VAULT'')
   \<and> (keyfile_data_is_encrypted_legacy b \<longleftrightarrow> take 6 b = ''gAAAAA'')
   \<and> \<not> (keyfile_data_is_encrypted_ansible b \<and> keyfile_data_is_encrypted_legacy b)
   \<and> decrypt_keyfile_data L b (Some p) cn w =
       (case classify_spec b of
          Vault \<Rightarrow>
            (case ansible_decrypt L p b of
               Inl e \<Rightarrow> (Inl e, w) | Inr d \<Rightarrow> (decrypted_as_bytes d, w))
        | Legacy \<Rightarrow>
            (case legacy_decrypt L p b of
               Inl e \<Rightarrow> (Inl e, w) | Inr d \<Rightarrow> (decrypted_as_bytes d, w))
        | Plaintext \<Rightarrow> (Inl (KeyFileError (Data_is_corrupt b)), w))"
proof -
  have v: "keyfile_data_is_encrypted_ansible b \<longleftrightarrow> take 14 b = ''$ANSIBLE_VAULT''"
    by (simp add: keyfile_data_is_encrypted_ansible_def)
  have l: "keyfile_data_is_encrypted_legacy b \<longleftrightarrow> take 6 b = ''gAAAAA''"
    by (simp add: keyfile_data_is_encrypted_legacy_def)
  have d: "\<not> (keyfile_data_is_encrypted_ansible b \<and> keyfile_data_is_encrypted_legacy b)"
    by (rule magic_disjoint)
  have c1: "classify_spec b = Vault \<longleftrightarrow> keyfile_data_is_encrypted_ansible b"
    by (simp add: classify_spec_def v)
  have c2: "classify_spec b = Legacy \<longleftrightarrow> keyfile_data_is_encrypted_legacy b"
    using d by (auto simp: classify_spec_def v l)
  have c3: "classify_spec b = Plaintext \<longleftrightarrow> \<not> keyfile_data_is_encrypted b"
    by (simp add: classify_spec_def keyfile_data_is_encrypted_def v l)
  have run: "decrypt_keyfile_data L b (Some p) cn w =
       (case classify_spec b of
          Vault \<Rightarrow>
            (case ansible_decrypt L p b of
               Inl e \<Rightarrow> (Inl e, w) | Inr d \<Rightarrow> (decrypted_as_bytes d, w))
        | Legacy \<Rightarrow>
            (case legacy_decrypt L p b of
               Inl e \<Rightarrow> (Inl e, w) | Inr d \<Rightarrow> (decrypted_as_bytes d, w))
        | Plaintext \<Rightarrow> (Inl (KeyFileError (Data_is_corrupt b)), w))"
    by (simp add: decrypt_with_password classify_spec_def v l)
  from c1 c2 c3 v l d run show ?thesis by blast
qed

text \<open>The classification at a Vault envelope.\<close>

theorem classification_prefix_exact_witness:
  "classify_spec ''$ANSIBLE_VAULT;1.1;AES256;hunter2:secret'' = Vault
   \<and> keyfile_data_is_encrypted_ansible ''$ANSIBLE_VAULT;1.1;AES256;hunter2:secret''
   \<and> \<not> keyfile_data_is_encrypted_legacy ''$ANSIBLE_VAULT;1.1;AES256;hunter2:secret''
   \<and> decrypt_keyfile_data demo_lib ''$ANSIBLE_VAULT;1.1;AES256;hunter2:secret'' (Some ''hunter2'')
        None demo_world
      = (case ansible_decrypt demo_lib ''hunter2'' ''$ANSIBLE_VAULT;1.1;AES256;hunter2:secret'' of
           Inl e \<Rightarrow> (Inl e, demo_world) | Inr d \<Rightarrow> (decrypted_as_bytes d, demo_world))"
  using classification_prefix_exact
          [of "''$ANSIBLE_VAULT;1.1;AES256;hunter2:secret''" demo_lib "''hunter2''" None demo_world]
  by (simp add: classify_spec_def)


text \<open>The fields of the small instance, for evaluation.\<close>

lemma demo_world_eval [simp]:
  "environ demo_world = [(''bt_cold_pw_alice'', ''hunter2'')]"
  "getpass_in demo_world = []"
  "input_in demo_world = [''n'']"
  "rng demo_world = 0"
  "umask demo_world = 18"
  "dirs demo_world = {''/wallets/alice''}"
  by (simp_all add: demo_world_def)

lemma demo_lib_eval [simp]:
  "vault_load demo_lib = demo_vault_load"
  "fernet_decrypt demo_lib = demo_fernet_decrypt"
  "urlsafe_b64encode demo_lib = (\<lambda>b. b)"
  "pbkdf2hmac_derive demo_lib = (\<lambda>algorithm salt n iterations key_material. take n (key_material @ salt))"
  "json_loads demo_lib = demo_json_loads"
  by (simp_all add: demo_lib_def)



text \<open>
  Claim C2. On a Legacy blob the cipher is keyed with the URL-safe base64 encoding of
  PBKDF2-HMAC-SHA256 of the encoded password, with the fixed salt, a length of 32 bytes
  and 10,000,000 iterations; the result of \<open>decrypt_keyfile_data\<close> is what that cipher
  returns. The key depends on the password alone.
\<close>

theorem legacy_key_derivation:
  assumes "keyfile_data_is_encrypted_legacy b"
  shows "decrypt_keyfile_data L b (Some p) cn w =
     (case fernet_decrypt L
             (urlsafe_b64encode L
                (pbkdf2hmac_derive L SHA256
                   ''Iguesscyborgslikemyselfhaveatendencytobeparanoidaboutourorigins''
                   32 10000000 (str_encode p))) b of
        Inl e \<Rightarrow> (Inl (if e \<in> {InvalidSignature, InvalidKey, InvalidToken}
                       then KeyFileError Invalid_password else Exception e), w)
      | Inr d \<Rightarrow> (Inr d, w))"
proof -
  from assms have na: "\<not> keyfile_data_is_encrypted_ansible b"
    using magic_disjoint [of b] by simp
  have "decrypt_keyfile_data L b (Some p) cn w =
          (case legacy_decrypt L p b of
             Inl e \<Rightarrow> (Inl e, w) | Inr d \<Rightarrow> (decrypted_as_bytes d, w))"
    using assms na by (simp add: decrypt_with_password)
  then show ?thesis
    by (simp add: legacy_decrypt_cases SALT_def decrypted_as_bytes_def split: sum.splits)
qed

text \<open>A Legacy token opened with its password, and refused with another.\<close>

theorem legacy_key_derivation_witness:
  "keyfile_data_is_encrypted_legacy ''gAAAAAfakepasssword238947239Iguesscyboencrypt me!''
   \<and> decrypt_keyfile_data demo_lib ''gAAAAAfakepasssword238947239Iguesscyboencrypt me!''
        (Some ''fakepasssword238947239'') None demo_world = (Inr ''encrypt me!'', demo_world)
   \<and> decrypt_keyfile_data demo_lib ''gAAAAAfakepasssword238947239Iguesscyboencrypt me!''
        (Some ''fakepasssword238947238'') None demo_world
        = (Inl (KeyFileError Invalid_password), demo_world)"
proof -
  have h: "keyfile_data_is_encrypted_legacy ''gAAAAAfakepasssword238947239Iguesscyboencrypt me!''"
    by (simp add: keyfile_data_is_encrypted_legacy_def)
  have e: "str_encode ''fakepasssword238947239'' = ''fakepasssword238947239''"
          "str_encode ''fakepasssword238947238'' = ''fakepasssword238947238''"
    by (simp_all add: str_encode_def utf8_char_def)
  show ?thesis
    using h legacy_key_derivation [OF h, of demo_lib "''fakepasssword238947239''" None demo_world]
      legacy_key_derivation [OF h, of demo_lib "''fakepasssword238947238''" None demo_world]
    by (simp add: e demo_fernet_decrypt_def startswith_def)
qed

section \<open>The codec\<close>

lemma sequence_all_Inr:
  "\<forall>r \<in> set rs. \<exists>x. r = Inr x \<Longrightarrow> \<exists>xs. sequence rs = Inr xs"
proof (induction rs)
  case Nil
  then show ?case by simp
next
  case (Cons r rs)
  then obtain x where r: "r = Inr x" by auto
  from Cons obtain xs where "sequence rs = Inr xs" by auto
  with r show ?case by simp
qed

lemma json_dumps_record:
  assumes "\<forall>(k, v) \<in> set kvs. (\<exists>s. k = PStr s) \<and> (v = PNone \<or> (\<exists>s. v = PStr s))"
  shows "\<exists>s. json_dumps (PDict kvs) = Inr s"
proof -
  let ?f = "\<lambda>(k, v). case json_key k of
                Inl e \<Rightarrow> Inl e
              | Inr ks \<Rightarrow> (case json_dumps v of Inl e \<Rightarrow> Inl e | Inr vs \<Rightarrow> Inr (ks @ '': '' @ vs))"
  have "\<forall>r \<in> set (map ?f kvs). \<exists>x. r = Inr x"
    using assms by fastforce
  then obtain ss where "sequence (map ?f kvs) = Inr ss"
    using sequence_all_Inr by blast
  then show ?thesis by simp
qed

lemma json_data_keys:
  "map fst (json_data kp) =
     [PStr ''accountId'', PStr ''publicKey'', PStr ''secretPhrase'', PStr ''secretSeed'',
      PStr ''ss58Address'']"
  by (simp add: json_data_def)

lemma json_data_values:
  "set (map snd (json_data kp)) \<subseteq> insert PNone (range PStr)"
  by (auto simp: json_data_def split: option.splits seed.splits)

lemma json_data_shape:
  "\<forall>(k, v) \<in> set (json_data kp). (\<exists>s. k = PStr s) \<and> (v = PNone \<or> (\<exists>s. v = PStr s))"
proof -
  have "\<forall>x \<in> set (json_data kp). fst x \<in> set (map fst (json_data kp))
          \<and> snd x \<in> set (map snd (json_data kp))"
    by simp
  then show ?thesis
    using json_data_values [of kp] unfolding json_data_keys by fastforce
qed

text \<open>
  Claim C4, as the module has it. Encoding a keypair never fails: the dictionary of
  lines 49 to 55 serializes, and the keyfile bytes are the encoding of that text. The
  dictionary has exactly the five keys \<^verbatim>\<open>accountId\<close>, \<^verbatim>\<open>publicKey\<close>,
  \<^verbatim>\<open>secretPhrase\<close>, \<^verbatim>\<open>secretSeed\<close> and \<^verbatim>\<open>ss58Address\<close>, in this order, and each
  value is \<^verbatim>\<open>None\<close> or a string.
\<close>

theorem serialized_keypair_fields:
  "(\<exists>s. json_dumps (PDict (json_data kp)) = Inr s
         \<and> serialized_keypair_to_keyfile_data kp = Inr (str_encode s))
   \<and> map fst (json_data kp) =
       [PStr ''accountId'', PStr ''publicKey'', PStr ''secretPhrase'', PStr ''secretSeed'',
        PStr ''ss58Address'']
   \<and> set (map snd (json_data kp)) \<subseteq> insert PNone (range PStr)"
proof -
  obtain s where s: "json_dumps (PDict (json_data kp)) = Inr s"
    using json_dumps_record [OF json_data_shape] by blast
  then have "serialized_keypair_to_keyfile_data kp = Inr (str_encode s)"
    by (simp add: serialized_keypair_to_keyfile_data_def)
  with s json_data_keys json_data_values show ?thesis by blast
qed

text \<open>The bytes that \<^verbatim>\<open>test_legacy_coldkey\<close> expects for its keypair.\<close>

theorem serialized_keypair_fields_witness:
  \<open>serialized_keypair_to_keyfile_data legacy_coldkey_keypair =
     Inr ''{"accountId": "0x32939b6abc4d81f02dff04d2b8d1d01cc8e71c5e4c7492e4fa6a238cdca3512f", "publicKey": "0x32939b6abc4d81f02dff04d2b8d1d01cc8e71c5e4c7492e4fa6a238cdca3512f", "secretPhrase": null, "secretSeed": null, "ss58Address": "5DD26kC2kxajmwfbbZmVmxhrY9VeeyR1Gpzy9i8wxLUg6zxm"}''
   \<and> map fst (json_data legacy_coldkey_keypair) =
       [PStr ''accountId'', PStr ''publicKey'', PStr ''secretPhrase'', PStr ''secretSeed'',
        PStr ''ss58Address'']\<close>
proof -
  have \<open>serialized_keypair_to_keyfile_data legacy_coldkey_keypair =
     Inr ''{"accountId": "0x32939b6abc4d81f02dff04d2b8d1d01cc8e71c5e4c7492e4fa6a238cdca3512f", "publicKey": "0x32939b6abc4d81f02dff04d2b8d1d01cc8e71c5e4c7492e4fa6a238cdca3512f", "secretPhrase": null, "secretSeed": null, "ss58Address": "5DD26kC2kxajmwfbbZmVmxhrY9VeeyR1Gpzy9i8wxLUg6zxm"}''\<close>
    by code_simp
  with serialized_keypair_fields [of legacy_coldkey_keypair] show ?thesis by blast
qed

text \<open>
  Claim C4 as stated names a field \<^verbatim>\<open>address\<close>. The record has no such field: its first
  field is \<^verbatim>\<open>accountId\<close>, here on the keypair with nothing set.
\<close>

theorem address_field_counterexample:
  \<open>PStr ''address'' \<notin> set (map fst (json_data empty_keypair))
   \<and> PStr ''accountId'' \<in> set (map fst (json_data empty_keypair))
   \<and> serialized_keypair_to_keyfile_data empty_keypair =
       Inr ''{"accountId": null, "publicKey": null, "secretPhrase": null, "secretSeed": null, "ss58Address": null}''\<close>
  by code_simp







section \<open>The raw address fallback\<close>

lemma deserialize_unparsed:
  assumes "bytes_decode L data = Inr text"
      and "json_loads L text = Inl e \<or> (\<exists>v. json_loads L text = Inr v \<and> py_dict L v = Inl e)"
  shows "deserialize_keypair_from_keyfile_data L data =
     (if take 2 text = ''0x''
      then (case ss58_encode L text of
              Inl e' \<Rightarrow> Inl (Exception e')
            | Inr a \<Rightarrow> lift_exn (Keypair_ss58_address L (PStr a)))
      else Inl (KeyFileError (Could_not_create_from_str text)))"
proof -
  from assms(2) have parse:
    "(case json_loads L text of Inl e \<Rightarrow> Inl e | Inr v \<Rightarrow> py_dict L v) = Inl e"
    by auto
  have dict: "load_keyfile_dict L text =
     (if take 2 text = ''0x''
      then (case ss58_encode L text of
              Inl e' \<Rightarrow> Inl (Exception e')
            | Inr a \<Rightarrow>
                Inr [ (PStr ''accountId'', PNone), (PStr ''publicKey'', PNone),
                      (PStr ''secretPhrase'', PNone), (PStr ''secretSeed'', PNone),
                      (PStr ''ss58Address'', PStr a) ])
      else Inl (KeyFileError (Could_not_create_from_str text)))"
    unfolding load_keyfile_dict_def parse by (simp add: Let_def)
  show ?thesis
    using assms(1)
    by (simp add: deserialize_keypair_from_keyfile_data_def dict keypair_from_keyfile_dict_def
          in_and_not_None_def split: sum.splits)
qed

text \<open>
  Claim C6, as the module has it. For keyfile bytes that decode to text which does not
  parse to a dictionary: when the text begins with \<^verbatim>\<open>0x\<close> and the address encoding
  of the whole text returns an address, the record has every field \<^verbatim>\<open>None\<close> but
  \<^verbatim>\<open>ss58Address\<close>, and the result is what \<^verbatim>\<open>Keypair(ss58_address=address)\<close> builds
  from that address alone; when the text does not begin with \<^verbatim>\<open>0x\<close> the result is the
  \<^verbatim>\<open>KeyFileError\<close> of line 83 carrying the text.
\<close>

theorem raw_address_fallback:
  assumes "bytes_decode L data = Inr text"
      and "json_loads L text = Inl e \<or> (\<exists>v. json_loads L text = Inr v \<and> py_dict L v = Inl e)"
  shows "(take 2 text = ''0x'' \<longrightarrow>
            (\<forall>a. ss58_encode L text = Inr a \<longrightarrow>
               load_keyfile_dict L text =
                 Inr [ (PStr ''accountId'', PNone), (PStr ''publicKey'', PNone),
                       (PStr ''secretPhrase'', PNone), (PStr ''secretSeed'', PNone),
                       (PStr ''ss58Address'', PStr a) ]
               \<and> deserialize_keypair_from_keyfile_data L data =
                   lift_exn (Keypair_ss58_address L (PStr a))))
       \<and> (take 2 text \<noteq> ''0x'' \<longrightarrow>
            deserialize_keypair_from_keyfile_data L data =
              Inl (KeyFileError (Could_not_create_from_str text)))"
proof (intro conjI impI allI)
  fix a
  assume p: "take 2 text = ''0x''" and a: "ss58_encode L text = Inr a"
  from assms(2) have parse:
    "(case json_loads L text of Inl e \<Rightarrow> Inl e | Inr v \<Rightarrow> py_dict L v) = Inl e"
    by auto
  show "load_keyfile_dict L text =
          Inr [ (PStr ''accountId'', PNone), (PStr ''publicKey'', PNone),
                (PStr ''secretPhrase'', PNone), (PStr ''secretSeed'', PNone),
                (PStr ''ss58Address'', PStr a) ]"
    unfolding load_keyfile_dict_def parse using p a by (simp add: Let_def)
  show "deserialize_keypair_from_keyfile_data L data = lift_exn (Keypair_ss58_address L (PStr a))"
    using deserialize_unparsed [OF assms] p a by simp
next
  assume "take 2 text \<noteq> ''0x''"
  then show "deserialize_keypair_from_keyfile_data L data =
               Inl (KeyFileError (Could_not_create_from_str text))"
    using deserialize_unparsed [OF assms] by simp
qed

lemma demo_unparsed:
  "bytes_decode demo_lib ''0x50'' = Inr ''0x50''"
  "json_loads demo_lib ''0x50'' = Inl ValueError"
  "bytes_decode demo_lib ''hello'' = Inr ''hello''"
  "json_loads demo_lib ''hello'' = Inl ValueError"
  by code_simp+

text \<open>A raw address and a text that is neither a record nor an address.\<close>

theorem raw_address_fallback_witness:
  "deserialize_keypair_from_keyfile_data demo_lib ''0x50'' =
     lift_exn (Keypair_ss58_address demo_lib (PStr ''550''))
   \<and> deserialize_keypair_from_keyfile_data demo_lib ''hello'' =
     Inl (KeyFileError (Could_not_create_from_str ''hello''))"
proof -
  have a: "json_loads demo_lib ''0x50'' = Inl ValueError
             \<or> (\<exists>v. json_loads demo_lib ''0x50'' = Inr v \<and> py_dict demo_lib v = Inl ValueError)"
    by (rule disjI1) (rule demo_unparsed(2))
  have b: "json_loads demo_lib ''hello'' = Inl ValueError
             \<or> (\<exists>v. json_loads demo_lib ''hello'' = Inr v \<and> py_dict demo_lib v = Inl ValueError)"
    by (rule disjI1) (rule demo_unparsed(4))
  have enc: "ss58_encode demo_lib ''0x50'' = Inr ''550''"
    by (simp add: demo_lib_def is_hex_def)
  show ?thesis
    using raw_address_fallback [OF demo_unparsed(1) a] raw_address_fallback [OF demo_unparsed(3) b] enc
    by simp
qed

text \<open>
  Claim C6 as stated fails in three ways. The keypair built from the address carries the
  public key that the constructor derives from it; a text that begins with \<^verbatim>\<open>0x\<close> and
  is not a key makes the address encoding raise, and the exception leaves the function
  as it is; bytes that are not text raise at line 68, before any parse.
\<close>

theorem raw_address_fallback_counterexample:
  "deserialize_keypair_from_keyfile_data demo_lib ''0x50'' =
     Inr \<lparr>public_key = Some ''50'', mnemonic = None, seed_hex = None, ss58_address = Some ''550''\<rparr>
   \<and> deserialize_keypair_from_keyfile_data demo_lib ''0xzz'' = Inl (Exception ValueError)
   \<and> deserialize_keypair_from_keyfile_data demo_lib [CHR 0xFF] = Inl (Exception UnicodeDecodeError)"
  by code_simp

section \<open>Validation of a password\<close>

lemma policy_passes:
  "policy_test_failures L policy p = [] \<longleftrightarrow>
     6 \<le> length p \<and> 10 \<le> entropy_bits L p \<and> 0.20 \<le> strength L p"
  by (auto simp: policy_test_failures_def policy_def test_passes_def)

text \<open>
  What \<open>validate_password\<close> decides with the outcome of the policy: it returns
  \<^verbatim>\<open>False\<close>, without raising and without asking for the confirmation, for \<^verbatim>\<open>None\<close>, for
  the empty password and for a password that fails one of the three tests of the policy
  (length at least 6, entropy at least 10 bits, strength at least 0.20). For a password
  that passes them it reads the confirmation and returns whether the two are equal. The
  entropy and the strength of a password are computed by the \<^verbatim>\<open>password_strength\<close>
  library, which is not part of the module: which passwords fail the two estimates is
  not decided here.
\<close>

lemma validate_password_decision:
  "validate_password L None w = (Inr False, w)
   \<and> validate_password L (Some []) w = (Inr False, w)
   \<and> (length p < 6 \<or> entropy_bits L p < 10 \<or> strength L p < 0.20 \<longrightarrow>
        validate_password L (Some p) w = (Inr False, w))
   \<and> (p \<noteq> [] \<and> 6 \<le> length p \<and> 10 \<le> entropy_bits L p \<and> 0.20 \<le> strength L p
        \<and> getpass_in w = c # rest \<longrightarrow>
        validate_password L (Some p) w = (Inr (c = p), w\<lparr>getpass_in := rest\<rparr>))
   \<and> (fst (validate_password L pw w) = Inr True \<longleftrightarrow>
        (\<exists>q rest'. pw = Some q \<and> q \<noteq> [] \<and> 6 \<le> length q \<and> 10 \<le> entropy_bits L q
           \<and> 0.20 \<le> strength L q \<and> getpass_in w = q # rest'))"
proof (intro conjI impI)
  show "validate_password L None w = (Inr False, w)"
    by (simp add: validate_password_def)
  show "validate_password L (Some []) w = (Inr False, w)"
    by (simp add: validate_password_def)
next
  assume "length p < 6 \<or> entropy_bits L p < 10 \<or> strength L p < 0.20"
  then have "policy_test_failures L policy p \<noteq> []"
    by (auto simp: policy_passes)
  then show "validate_password L (Some p) w = (Inr False, w)"
    by (simp add: validate_password_def Let_def)
next
  assume a: "p \<noteq> [] \<and> 6 \<le> length p \<and> 10 \<le> entropy_bits L p \<and> 0.20 \<le> strength L p
        \<and> getpass_in w = c # rest"
  then have "policy_test_failures L policy p = []"
    by (simp add: policy_passes)
  with a show "validate_password L (Some p) w = (Inr (c = p), w\<lparr>getpass_in := rest\<rparr>)"
    by (auto simp: validate_password_def Let_def getpass_getpass_def)
next
  show "fst (validate_password L pw w) = Inr True \<longleftrightarrow>
        (\<exists>q rest'. pw = Some q \<and> q \<noteq> [] \<and> 6 \<le> length q \<and> 10 \<le> entropy_bits L q
           \<and> 0.20 \<le> strength L q \<and> getpass_in w = q # rest')"
  proof (cases pw)
    case None
    then show ?thesis by (simp add: validate_password_def)
  next
    case (Some q)
    show ?thesis
    proof (cases "q \<noteq> [] \<and> policy_test_failures L policy q = []")
      case False
      then show ?thesis
        using Some policy_passes [of L q] by (auto simp: validate_password_def Let_def)
    next
      case True
      then show ?thesis
        using Some policy_passes [of L q]
        by (cases "getpass_in w") (auto simp: validate_password_def Let_def getpass_getpass_def)
    qed
  qed
qed

text \<open>A short password, a matching confirmation and a confirmation that differs.\<close>

lemma validate_password_decision_example:
  "validate_password demo_lib (Some ''pass'') (demo_world\<lparr>getpass_in := [''pass'']\<rparr>)
     = (Inr False, demo_world\<lparr>getpass_in := [''pass'']\<rparr>)
   \<and> validate_password demo_lib (Some ''biTTensor'') (demo_world\<lparr>getpass_in := [''biTTensor'']\<rparr>)
     = (Inr True, demo_world\<lparr>getpass_in := []\<rparr>)
   \<and> validate_password demo_lib (Some ''biTTensor'') (demo_world\<lparr>getpass_in := [''biTTenso'']\<rparr>)
     = (Inr False, demo_world\<lparr>getpass_in := []\<rparr>)"
proof -
  have e: "entropy_bits demo_lib = (\<lambda>s. 4 * real (length s))"
          "strength demo_lib = (\<lambda>s. real (length s) / 20)"
    by (simp_all add: demo_lib_def)
  show ?thesis
    using validate_password_decision
            [of demo_lib "demo_world\<lparr>getpass_in := [''pass'']\<rparr>" "''pass''" "''pass''" "[]" None]
          validate_password_decision
            [of demo_lib "demo_world\<lparr>getpass_in := [''biTTensor'']\<rparr>" "''biTTensor''"
                "''biTTensor''" "[]" None]
          validate_password_decision
            [of demo_lib "demo_world\<lparr>getpass_in := [''biTTenso'']\<rparr>" "''biTTensor''"
                "''biTTenso''" "[]" None]
    by (simp add: e)
qed

section \<open>The overwrite confirmation\<close>

lemma may_overwrite_answer:
  "input_in w = c # rest \<Longrightarrow> may_overwrite K w = (Inr (c = ''y''), w\<lparr>input_in := rest\<rparr>)"
  by (simp add: may_overwrite_def builtin_input_def)

lemma write_denied:
  assumes "exists_on_device K w" and "input_in w = c # rest" and "c \<noteq> ''y''"
  shows "write_keyfile_data_to_file K d False w =
           (Inl (KeyFileError (Is_not_writable (path K))), w\<lparr>input_in := rest\<rparr>)"
  using assms by (simp add: write_keyfile_data_to_file_def may_overwrite_answer)

lemma write_granted:
  assumes "exists_on_device K w" and "input_in w = ''y'' # rest"
  shows "write_keyfile_data_to_file K d False w =
           write_keyfile_data_to_file K d True (w\<lparr>input_in := rest\<rparr>)"
proof -
  have "exists_on_device K (w\<lparr>input_in := rest\<rparr>) = exists_on_device K w"
    by (simp add: exists_on_device_def os_path_isfile_def)
  then show ?thesis
    using assms by (simp add: write_keyfile_data_to_file_def may_overwrite_answer)
qed

text \<open>
  Claim C10. The confirmation grants the overwrite exactly when the line read is the
  single lowercase character \<^verbatim>\<open>y\<close>. On a file that exists, with \<^verbatim>\<open>overwrite=False\<close>,
  any other line makes the write fail with the \<^verbatim>\<open>KeyFileError\<close> of line 435, and the
  line \<^verbatim>\<open>y\<close> lets the write go on as with \<^verbatim>\<open>overwrite=True\<close>.
\<close>

theorem overwrite_only_on_y:
  "(input_in w = c # rest \<longrightarrow>
      may_overwrite K w = (Inr (c = ''y''), w\<lparr>input_in := rest\<rparr>))
   \<and> (exists_on_device K w \<and> input_in w = c # rest \<and> c \<noteq> ''y'' \<longrightarrow>
        write_keyfile_data_to_file K d False w =
          (Inl (KeyFileError (Is_not_writable (path K))), w\<lparr>input_in := rest\<rparr>))
   \<and> (exists_on_device K w \<and> input_in w = c # rest \<and> c = ''y'' \<longrightarrow>
        write_keyfile_data_to_file K d False w =
          write_keyfile_data_to_file K d True (w\<lparr>input_in := rest\<rparr>))"
proof (intro conjI impI)
  assume "input_in w = c # rest"
  then show "may_overwrite K w = (Inr (c = ''y''), w\<lparr>input_in := rest\<rparr>)"
    by (rule may_overwrite_answer)
next
  assume "exists_on_device K w \<and> input_in w = c # rest \<and> c \<noteq> ''y''"
  then show "write_keyfile_data_to_file K d False w =
          (Inl (KeyFileError (Is_not_writable (path K))), w\<lparr>input_in := rest\<rparr>)"
    using write_denied [of K w c rest d] by simp
next
  assume "exists_on_device K w \<and> input_in w = c # rest \<and> c = ''y''"
  then show "write_keyfile_data_to_file K d False w =
          write_keyfile_data_to_file K d True (w\<lparr>input_in := rest\<rparr>)"
    using write_granted [of K w rest d] by simp
qed

lemma alice_exists [simp]:
  "exists_on_device alice_keyfile (demo_world\<lparr>input_in := xs\<rparr>)"
  by (simp add: exists_on_device_def os_path_isfile_def alice_keyfile_def demo_world_def)

lemma alice_path:
  "path alice_keyfile = ''/wallets/alice/coldkey''"
  by (simp add: alice_keyfile_def)

text \<open>The answers \<^verbatim>\<open>y\<close>, \<^verbatim>\<open>Y\<close>, \<^verbatim>\<open>yes\<close> and the empty line.\<close>

theorem overwrite_only_on_y_witness:
  "fst (may_overwrite alice_keyfile (demo_world\<lparr>input_in := [''y'']\<rparr>)) = Inr True
   \<and> fst (may_overwrite alice_keyfile (demo_world\<lparr>input_in := [''Y'']\<rparr>)) = Inr False
   \<and> fst (may_overwrite alice_keyfile (demo_world\<lparr>input_in := [''yes'']\<rparr>)) = Inr False
   \<and> fst (may_overwrite alice_keyfile (demo_world\<lparr>input_in := [[]]\<rparr>)) = Inr False
   \<and> fst (write_keyfile_data_to_file alice_keyfile ''new'' False (demo_world\<lparr>input_in := [''Y'']\<rparr>))
       = Inl (KeyFileError (Is_not_writable ''/wallets/alice/coldkey''))
   \<and> fst (write_keyfile_data_to_file alice_keyfile ''new'' False (demo_world\<lparr>input_in := [''yes'']\<rparr>))
       = Inl (KeyFileError (Is_not_writable ''/wallets/alice/coldkey''))
   \<and> fst (write_keyfile_data_to_file alice_keyfile ''new'' False (demo_world\<lparr>input_in := [[]]\<rparr>))
       = Inl (KeyFileError (Is_not_writable ''/wallets/alice/coldkey''))"
  using overwrite_only_on_y [of "demo_world\<lparr>input_in := [''y'']\<rparr>" "''y''" "[]" alice_keyfile "''new''"]
        overwrite_only_on_y [of "demo_world\<lparr>input_in := [''Y'']\<rparr>" "''Y''" "[]" alice_keyfile "''new''"]
        overwrite_only_on_y [of "demo_world\<lparr>input_in := [''yes'']\<rparr>" "''yes''" "[]" alice_keyfile "''new''"]
        overwrite_only_on_y [of "demo_world\<lparr>input_in := [[]]\<rparr>" "[]" "[]" alice_keyfile "''new''"]
  by (simp add: alice_path)

section \<open>What the steps before a write leave unchanged\<close>

lemma getpass_getpass_frame:
  "getpass_getpass w = (r, w') \<Longrightarrow> files w' = files w \<and> input_in w' = input_in w"
  by (auto simp: getpass_getpass_def split: list.splits)

lemma validate_password_frame:
  "validate_password L p w = (r, w') \<Longrightarrow> files w' = files w \<and> input_in w' = input_in w"
  by (auto simp: validate_password_def Let_def dest: getpass_getpass_frame
           split: option.splits if_splits prod.splits sum.splits)

lemma ask_password_to_encrypt_frame:
  "ask_password_to_encrypt L w = (r, w') \<Longrightarrow> files w' = files w \<and> input_in w' = input_in w"
proof (induction L w arbitrary: r w' rule: ask_password_to_encrypt.induct)
  case (1 L w)
  obtain g w1 where g: "getpass_getpass w = (g, w1)"
    by (cases "getpass_getpass w")
  then have f1: "files w1 = files w \<and> input_in w1 = input_in w"
    by (rule getpass_getpass_frame)
  show ?case
  proof (cases g)
    case (Inl e)
    with g "1.prems" f1 show ?thesis
      by (simp add: ask_password_to_encrypt.simps)
  next
    case (Inr password)
    obtain v w2 where v: "validate_password L (Some password) w1 = (v, w2)"
      by (cases "validate_password L (Some password) w1")
    then have f2: "files w2 = files w1 \<and> input_in w2 = input_in w1"
      by (rule validate_password_frame)
    show ?thesis
    proof (cases v)
      case (Inl e)
      with g Inr v "1.prems" f1 f2 show ?thesis
        by (simp add: ask_password_to_encrypt.simps)
    next
      case valid: (Inr valid)
      show ?thesis
      proof (cases valid)
        case True
        with g Inr v valid "1.prems" f1 f2 show ?thesis
          by (simp add: ask_password_to_encrypt.simps)
      next
        case False
        with g Inr v valid "1.prems" have "ask_password_to_encrypt L w2 = (r, w')"
          by (simp add: ask_password_to_encrypt.simps [of L w])
        then have "files w' = files w2 \<and> input_in w' = input_in w2"
          using "1.IH" [OF g [symmetric] Inr v [symmetric] valid False] by simp
        with f1 f2 show ?thesis by simp
      qed
    qed
  qed
qed

lemma encrypt_keyfile_data_frame:
  "encrypt_keyfile_data L d pw w = (r, w') \<Longrightarrow> files w' = files w \<and> input_in w' = input_in w"
proof (cases pw)
  case None
  assume a: "encrypt_keyfile_data L d pw w = (r, w')"
  obtain q w1 where q: "ask_password_to_encrypt L w = (q, w1)"
    by (cases "ask_password_to_encrypt L w")
  then have "files w1 = files w \<and> input_in w1 = input_in w"
    by (rule ask_password_to_encrypt_frame)
  with a None q show ?thesis
    by (auto simp: encrypt_keyfile_data_def split: sum.splits)
next
  case (Some p)
  assume "encrypt_keyfile_data L d pw w = (r, w')"
  with Some show ?thesis
    by (auto simp: encrypt_keyfile_data_def)
qed

lemma make_dirs_frame:
  "make_dirs K w = (r, w') \<Longrightarrow> files w' = files w \<and> input_in w' = input_in w"
  by (auto simp: make_dirs_def Let_def os_makedirs_def split: if_splits sum.splits)

lemma exists_on_device_files:
  "files w' = files w \<Longrightarrow> exists_on_device K w' = exists_on_device K w"
  by (simp add: exists_on_device_def os_path_isfile_def)

lemma serialized_keypair_never_fails:
  "\<exists>data. serialized_keypair_to_keyfile_data kp = Inr data"
proof -
  obtain s where "json_dumps (PDict (json_data kp)) = Inr s"
    using json_dumps_record [OF json_data_shape] by blast
  then show ?thesis
    by (simp add: serialized_keypair_to_keyfile_data_def)
qed

section \<open>A refused overwrite in \<open>set_keypair\<close>\<close>

lemma set_keypair_steps:
  "set_keypair L K kp enc ov pw w =
     (case make_dirs K w of
        (Inl e, w1) \<Rightarrow> (Inl e, w1)
      | (Inr u, w1) \<Rightarrow>
          (case serialized_keypair_to_keyfile_data kp of
             Inl e \<Rightarrow> (Inl e, w1)
           | Inr keyfile_data \<Rightarrow>
               (case (if enc then encrypt_keyfile_data L keyfile_data pw w1
                      else (Inr keyfile_data, w1)) of
                  (Inl e, w2) \<Rightarrow> (Inl e, w2)
                | (Inr keyfile_data', w2) \<Rightarrow>
                    write_keyfile_data_to_file K keyfile_data' ov w2)))"
  by (simp add: set_keypair_def)

text \<open>
  Claim C7. On a keyfile whose path holds a file, with \<^verbatim>\<open>overwrite=False\<close> and a next
  answer at the confirmation prompt other than \<^verbatim>\<open>y\<close>, \<open>set_keypair\<close> always fails
  and leaves every file as it was, bytes and permission bits. When the steps before the
  write return (the directory step, and the encryption when it is asked for), the
  confirmation is read and the failure is the \<^verbatim>\<open>KeyFileError\<close> of line 435, raised before
  the file is opened.
\<close>

theorem set_keypair_overwrite_denied:
  assumes "exists_on_device K w" and "input_in w = c # rest" and "c \<noteq> ''y''"
  shows "(\<exists>e w'. set_keypair L K kp enc False pw w = (Inl e, w') \<and> files w' = files w)
       \<and> (\<forall>data w1 d w2.
             make_dirs K w = (Inr (), w1)
             \<and> serialized_keypair_to_keyfile_data kp = Inr data
             \<and> (if enc then encrypt_keyfile_data L data pw w1 else (Inr data, w1)) = (Inr d, w2)
             \<longrightarrow> set_keypair L K kp enc False pw w =
                   (Inl (KeyFileError (Is_not_writable (path K))), w2\<lparr>input_in := rest\<rparr>))"
proof -
  obtain data where data: "serialized_keypair_to_keyfile_data kp = Inr data"
    using serialized_keypair_never_fails by blast
  obtain m w1 where m: "make_dirs K w = (m, w1)"
    by (cases "make_dirs K w")
  then have f1: "files w1 = files w \<and> input_in w1 = input_in w"
    by (rule make_dirs_frame)
  obtain x w2 where x:
    "(if enc then encrypt_keyfile_data L data pw w1 else (Inr data, w1)) = (x, w2)"
    by (cases "if enc then encrypt_keyfile_data L data pw w1 else (Inr data, w1)")
  have f2: "files w2 = files w1 \<and> input_in w2 = input_in w1"
  proof (cases enc)
    case True
    with x have "encrypt_keyfile_data L data pw w1 = (x, w2)" by simp
    then show ?thesis by (rule encrypt_keyfile_data_frame)
  next
    case False
    with x show ?thesis by simp
  qed
  from f1 f2 assms have e2: "exists_on_device K w2" and i2: "input_in w2 = c # rest"
    by (simp_all add: exists_on_device_files [of w2 w K])
  have denied: "\<And>d. write_keyfile_data_to_file K d False w2 =
                  (Inl (KeyFileError (Is_not_writable (path K))), w2\<lparr>input_in := rest\<rparr>)"
    using e2 i2 assms(3) by (rule write_denied)
  have fails: "\<exists>e w'. set_keypair L K kp enc False pw w = (Inl e, w') \<and> files w' = files w"
  proof (cases m)
    case (Inl e)
    with m f1 show ?thesis by (simp add: set_keypair_steps)
  next
    case (Inr u)
    show ?thesis
    proof (cases x)
      case (Inl e)
      with m Inr data x f1 f2 show ?thesis by (simp add: set_keypair_steps)
    next
      case d: (Inr d)
      with m Inr data x f1 f2 denied [of d] show ?thesis by (simp add: set_keypair_steps)
    qed
  qed
  have reached: "\<forall>data' w1' d w2'.
             make_dirs K w = (Inr (), w1')
             \<and> serialized_keypair_to_keyfile_data kp = Inr data'
             \<and> (if enc then encrypt_keyfile_data L data' pw w1' else (Inr data', w1')) = (Inr d, w2')
             \<longrightarrow> set_keypair L K kp enc False pw w =
                   (Inl (KeyFileError (Is_not_writable (path K))), w2'\<lparr>input_in := rest\<rparr>)"
  proof (intro allI impI)
    fix data' w1' d w2'
    assume a: "make_dirs K w = (Inr (), w1')
             \<and> serialized_keypair_to_keyfile_data kp = Inr data'
             \<and> (if enc then encrypt_keyfile_data L data' pw w1' else (Inr data', w1')) = (Inr d, w2')"
    with m data have eq1: "m = Inr ()" "w1' = w1" "data' = data"
      by simp_all
    from a have "(if enc then encrypt_keyfile_data L data pw w1 else (Inr data, w1)) = (Inr d, w2')"
      unfolding eq1 by simp
    with x have eq2: "x = Inr d" "w2' = w2"
      by simp_all
    from eq1 eq2 m data x denied [of d]
    show "set_keypair L K kp enc False pw w =
            (Inl (KeyFileError (Is_not_writable (path K))), w2'\<lparr>input_in := rest\<rparr>)"
      by (simp add: set_keypair_steps)
  qed
  from fails reached show ?thesis by blast
qed

section \<open>Permissions after a write\<close>

lemma open_wb_opened:
  "open_wb w p = Inr w2 \<Longrightarrow> \<exists>f. files w2 p = Some f \<and> content f = []"
  by (auto simp: open_wb_def split: if_splits option.splits)

lemma write_success:
  assumes "write_keyfile_data_to_file K d ov w = (Inr u, w')"
  shows "\<exists>f. files w' (path K) = Some f \<and> mode f = (S_IRUSR OR S_IWUSR) \<and> content f = d"
proof -
  from assms obtain w1 w2 where
    o: "open_wb w1 (path K) = Inr w2" and
    c: "os_chmod (file_write w2 (path K) d) (path K) (S_IRUSR OR S_IWUSR) = Inr w'"
    by (auto simp: write_keyfile_data_to_file_def Let_def split: if_splits prod.splits sum.splits)
  from o obtain f where f: "files w2 (path K) = Some f" "content f = []"
    using open_wb_opened by blast
  then have "files (file_write w2 (path K) d) (path K) = Some (f\<lparr>content := d\<rparr>)"
    by (simp add: file_write_def)
  with c have "files w' (path K) = Some (f\<lparr>content := d, mode := S_IRUSR OR S_IWUSR\<rparr>)"
    by (auto simp: os_chmod_def)
  then show ?thesis by simp
qed

lemma set_keypair_writes:
  "set_keypair L K kp enc ov pw w = (Inr u, w') \<Longrightarrow>
     \<exists>d w2. write_keyfile_data_to_file K d ov w2 = (Inr u, w')"
  by (auto simp: set_keypair_def split: prod.splits sum.splits if_splits)

lemma keyfile_encrypt_writes:
  "keyfile_encrypt L K pw w = (Inr u, w') \<Longrightarrow>
     \<exists>d w2. write_keyfile_data_to_file K d True w2 = (Inr u, w')"
  by (auto simp: keyfile_encrypt_def split: prod.splits sum.splits if_splits)

lemma keyfile_decrypt_writes:
  "keyfile_decrypt L K pw w = (Inr u, w') \<Longrightarrow>
     \<exists>d w2. write_keyfile_data_to_file K d True w2 = (Inr u, w')"
  by (auto simp: keyfile_decrypt_def split: prod.splits sum.splits if_splits)

lemma owner_bits:
  "S_IRUSR OR S_IWUSR = 384" "(384 :: int) AND 63 = 0"
  by (simp_all add: S_IRUSR_def S_IWUSR_def)

text \<open>
  Claim C8. Whenever \<open>set_keypair\<close>, \<open>keyfile_encrypt\<close> or \<open>keyfile_decrypt\<close> returns
  without an exception, the file at the keyfile's path has the permission bits
  \<^verbatim>\<open>S_IRUSR | S_IWUSR\<close>, that is octal 600: read and write for the owner, and no bit
  for the group or for others (the bits of octal 077). The same holds of
  \<open>write_keyfile_data_to_file\<close>, through which the three go, and the file then holds the
  bytes written.
\<close>

theorem written_file_owner_only:
  "(set_keypair L K kp enc ov pw w = (Inr u, w') \<longrightarrow>
      (\<exists>f. files w' (path K) = Some f \<and> mode f = (S_IRUSR OR S_IWUSR) \<and> mode f = 384
            \<and> mode f AND 63 = 0))
   \<and> (keyfile_encrypt L K pw w = (Inr u, w') \<longrightarrow>
      (\<exists>f. files w' (path K) = Some f \<and> mode f = (S_IRUSR OR S_IWUSR) \<and> mode f = 384
            \<and> mode f AND 63 = 0))
   \<and> (keyfile_decrypt L K pw w = (Inr u, w') \<longrightarrow>
      (\<exists>f. files w' (path K) = Some f \<and> mode f = (S_IRUSR OR S_IWUSR) \<and> mode f = 384
            \<and> mode f AND 63 = 0))
   \<and> (write_keyfile_data_to_file K d ov w = (Inr u, w') \<longrightarrow>
      (\<exists>f. files w' (path K) = Some f \<and> mode f = (S_IRUSR OR S_IWUSR) \<and> mode f = 384
            \<and> mode f AND 63 = 0 \<and> content f = d))"
proof -
  have w: "\<And>d ov w2. write_keyfile_data_to_file K d ov w2 = (Inr u, w') \<Longrightarrow>
      (\<exists>f. files w' (path K) = Some f \<and> mode f = (S_IRUSR OR S_IWUSR) \<and> mode f = 384
            \<and> mode f AND 63 = 0 \<and> content f = d)"
  proof -
    fix d ov w2
    assume "write_keyfile_data_to_file K d ov w2 = (Inr u, w')"
    then obtain f where "files w' (path K) = Some f" "mode f = (S_IRUSR OR S_IWUSR)" "content f = d"
      using write_success by blast
    then show "\<exists>f. files w' (path K) = Some f \<and> mode f = (S_IRUSR OR S_IWUSR) \<and> mode f = 384
            \<and> mode f AND 63 = 0 \<and> content f = d"
      by (simp add: owner_bits)
  qed
  show ?thesis
  proof (intro conjI impI)
    assume "set_keypair L K kp enc ov pw w = (Inr u, w')"
    then obtain d w2 where "write_keyfile_data_to_file K d ov w2 = (Inr u, w')"
      using set_keypair_writes by blast
    from w [OF this]
    show "\<exists>f. files w' (path K) = Some f \<and> mode f = (S_IRUSR OR S_IWUSR) \<and> mode f = 384
            \<and> mode f AND 63 = 0"
      by blast
  next
    assume "keyfile_encrypt L K pw w = (Inr u, w')"
    then obtain d w2 where "write_keyfile_data_to_file K d True w2 = (Inr u, w')"
      using keyfile_encrypt_writes by blast
    from w [OF this]
    show "\<exists>f. files w' (path K) = Some f \<and> mode f = (S_IRUSR OR S_IWUSR) \<and> mode f = 384
            \<and> mode f AND 63 = 0"
      by blast
  next
    assume "keyfile_decrypt L K pw w = (Inr u, w')"
    then obtain d w2 where "write_keyfile_data_to_file K d True w2 = (Inr u, w')"
      using keyfile_decrypt_writes by blast
    from w [OF this]
    show "\<exists>f. files w' (path K) = Some f \<and> mode f = (S_IRUSR OR S_IWUSR) \<and> mode f = 384
            \<and> mode f AND 63 = 0"
      by blast
  next
    assume "write_keyfile_data_to_file K d ov w = (Inr u, w')"
    from w [OF this]
    show "\<exists>f. files w' (path K) = Some f \<and> mode f = (S_IRUSR OR S_IWUSR) \<and> mode f = 384
            \<and> mode f AND 63 = 0 \<and> content f = d"
      by blast
  qed
qed


text \<open>The small instance: a keyfile that exists, and the answer \<^verbatim>\<open>n\<close>.\<close>

lemma alice_exists_demo:
  "exists_on_device alice_keyfile demo_world"
  by (simp add: exists_on_device_def os_path_isfile_def alice_keyfile_def demo_world_def)

lemma alice_make_dirs:
  "make_dirs alice_keyfile demo_world = (Inr (), demo_world)"
  by (simp add: make_dirs_def alice_keyfile_def os_path_dirname_def rstrip_slash_def
        os_path_exists_def Let_def)

text \<open>The write is refused and the old bytes stay.\<close>

theorem set_keypair_overwrite_denied_witness:
  "fst (set_keypair demo_lib alice_keyfile empty_keypair True False (Some ''pw'') demo_world)
     = Inl (KeyFileError (Is_not_writable ''/wallets/alice/coldkey''))
   \<and> files (snd (set_keypair demo_lib alice_keyfile empty_keypair True False (Some ''pw'')
                   demo_world)) = files demo_world
   \<and> files demo_world ''/wallets/alice/coldkey'' = Some \<lparr>content = ''0x50'', mode = 420\<rparr>"
proof -
  have inp: "input_in demo_world = ''n'' # []" by simp
  have ne: "''n'' \<noteq> ''y''" by simp
  obtain data where data: "serialized_keypair_to_keyfile_data empty_keypair = Inr data"
    using serialized_keypair_never_fails by blast
  have en: "(if True then encrypt_keyfile_data demo_lib data (Some ''pw'') demo_world
             else (Inr data, demo_world))
            = (Inr (demo_header @ ''pw'' @ '':'' @ data), demo_world\<lparr>rng := Suc 0\<rparr>)"
    by (simp add: encrypt_keyfile_data_def demo_lib_def lift_exn_def)
  note t = set_keypair_overwrite_denied [OF alice_exists_demo inp ne,
             of demo_lib empty_keypair True "Some ''pw''"]
  from t have run: "set_keypair demo_lib alice_keyfile empty_keypair True False (Some ''pw'') demo_world =
          (Inl (KeyFileError (Is_not_writable (path alice_keyfile))),
           demo_world\<lparr>rng := Suc 0, input_in := []\<rparr>)"
    using alice_make_dirs data en by blast
  have old: "files demo_world ''/wallets/alice/coldkey'' = Some \<lparr>content = ''0x50'', mode = 420\<rparr>"
    by (simp add: demo_world_def)
  from run old show ?thesis
    by (simp add: alice_keyfile_def)
qed

text \<open>Three writes over a file that had the bits of octal 644.\<close>

lemma demo_runs:
  "fst (set_keypair demo_lib alice_keyfile empty_keypair True True (Some ''pw'') demo_world) = Inr ()"
  "fst (keyfile_encrypt demo_lib alice_keyfile (Some ''pw'') demo_world) = Inr ()"
  "fst (keyfile_decrypt demo_lib alice_keyfile (Some ''pw'') demo_world) = Inr ()"
  by code_simp+

text \<open>After each of them the bits are those of octal 600.\<close>

theorem written_file_owner_only_witness:
  "fst (set_keypair demo_lib alice_keyfile empty_keypair True True (Some ''pw'') demo_world) = Inr ()
   \<and> map_option mode
        (files (snd (set_keypair demo_lib alice_keyfile empty_keypair True True (Some ''pw'')
                       demo_world)) ''/wallets/alice/coldkey'') = Some 384
   \<and> fst (keyfile_encrypt demo_lib alice_keyfile (Some ''pw'') demo_world) = Inr ()
   \<and> map_option mode
        (files (snd (keyfile_encrypt demo_lib alice_keyfile (Some ''pw'') demo_world))
           ''/wallets/alice/coldkey'') = Some 384
   \<and> fst (keyfile_decrypt demo_lib alice_keyfile (Some ''pw'') demo_world) = Inr ()
   \<and> map_option mode
        (files (snd (keyfile_decrypt demo_lib alice_keyfile (Some ''pw'') demo_world))
           ''/wallets/alice/coldkey'') = Some 384
   \<and> map_option mode (files demo_world ''/wallets/alice/coldkey'') = Some 420"
proof -
  have p: "path alice_keyfile = ''/wallets/alice/coldkey''"
    by (simp add: alice_keyfile_def)
  have a: "set_keypair demo_lib alice_keyfile empty_keypair True True (Some ''pw'') demo_world =
           (Inr (), snd (set_keypair demo_lib alice_keyfile empty_keypair True True (Some ''pw'')
                           demo_world))"
    using demo_runs(1) by (simp add: prod_eq_iff)
  have b: "keyfile_encrypt demo_lib alice_keyfile (Some ''pw'') demo_world =
           (Inr (), snd (keyfile_encrypt demo_lib alice_keyfile (Some ''pw'') demo_world))"
    using demo_runs(2) by (simp add: prod_eq_iff)
  have c: "keyfile_decrypt demo_lib alice_keyfile (Some ''pw'') demo_world =
           (Inr (), snd (keyfile_decrypt demo_lib alice_keyfile (Some ''pw'') demo_world))"
    using demo_runs(3) by (simp add: prod_eq_iff)
  have old: "map_option mode (files demo_world ''/wallets/alice/coldkey'') = Some 420"
    by (simp add: demo_world_def)
  note t = written_file_owner_only
  from t [of demo_lib alice_keyfile empty_keypair True True "Some ''pw''" demo_world "()"
            "snd (set_keypair demo_lib alice_keyfile empty_keypair True True (Some ''pw'') demo_world)"]
       a
  have ra: "map_option mode
        (files (snd (set_keypair demo_lib alice_keyfile empty_keypair True True (Some ''pw'')
                       demo_world)) ''/wallets/alice/coldkey'') = Some 384"
    unfolding p by auto
  from t [of demo_lib alice_keyfile empty_keypair True True "Some ''pw''" demo_world "()"
            "snd (keyfile_encrypt demo_lib alice_keyfile (Some ''pw'') demo_world)"]
       b
  have rb: "map_option mode
        (files (snd (keyfile_encrypt demo_lib alice_keyfile (Some ''pw'') demo_world))
           ''/wallets/alice/coldkey'') = Some 384"
    unfolding p by auto
  from t [of demo_lib alice_keyfile empty_keypair True True "Some ''pw''" demo_world "()"
            "snd (keyfile_decrypt demo_lib alice_keyfile (Some ''pw'') demo_world)"]
       c
  have rc: "map_option mode
        (files (snd (keyfile_decrypt demo_lib alice_keyfile (Some ''pw'') demo_world))
           ''/wallets/alice/coldkey'') = Some 384"
    unfolding p by auto
  from ra rb rc old demo_runs show ?thesis by simp
qed

end
